theory Spec2Isabelle
  imports Main "HOL-Library.Word"
begin

section \<open>Data model (package schemas)\<close>

text \<open>
  Go's \<open>int16\<close> and \<open>int64\<close> are machine words: arithmetic wraps, comparisons
  with \<open><\<close> are signed (\<open>sint\<close>). Strings are byte lists, so \<open>length\<close> is Go's
  \<open>len\<close>. The \<open>CreatedAt\<close> time stamps and the \<open>DB\<close> handle fields carry no
  information any check reads and are left out of the records.
\<close>

type_synonym int16 = "16 word"
type_synonym int64 = "64 word"

record User =
  User_ID :: int64
  Username :: string
  User_Password :: string

record Group =
  ID :: int64
  Title :: string
  Description :: string
  Status :: int16
  Password :: string
  MaxSize :: int16
  OwnerID :: int64
  Members :: "User list"

record FieldError =
  Name :: string
  Error :: string

record BodyError =
  Message :: string
  FieldErrors :: "FieldError list"

record ValidationError =
  VE_Message :: string
  Errors :: "FieldError list"

record TokenResponse =
  Token :: string
  TR_User :: User

text \<open>The zero values Go gives to a declared struct (\<open>schemas.Group{}\<close>, \<open>var req\<close>).\<close>

definition zero_User :: User where
  "zero_User = \<lparr>User_ID = 0, Username = [], User_Password = []\<rparr>"

definition zero_Group :: Group where
  "zero_Group = \<lparr>ID = 0, Title = [], Description = [], Status = 0, Password = [],
     MaxSize = 0, OwnerID = 0, Members = []\<rparr>"

subsection \<open>Predicates of a group\<close>

text \<open>\<open>slices.IndexFunc\<close>: the first index whose element satisfies the test, or -1.\<close>

fun IndexFunc :: "'a list \<Rightarrow> ('a \<Rightarrow> bool) \<Rightarrow> int" where
  "IndexFunc [] f = -1"
| "IndexFunc (x # xs) f =
     (if f x then 0 else (let i = IndexFunc xs f in if i = -1 then -1 else i + 1))"

definition memberIndex :: "Group \<Rightarrow> int64 \<Rightarrow> int" where
  "memberIndex g uid = IndexFunc (Members g) (\<lambda>m. User_ID m = uid)"

text \<open>\<open>g.MaxSize-1 == int16(len(g.Members))\<close>: both sides are \<open>int16\<close>; the
  subtraction wraps and the conversion of the length truncates.\<close>

definition IsFull :: "Group \<Rightarrow> bool" where
  "IsFull g = (MaxSize g - 1 = (word_of_nat (length (Members g)) :: int16))"

definition IsMember :: "Group \<Rightarrow> int64 \<Rightarrow> bool" where
  "IsMember g uid = (let i = memberIndex g uid in i \<noteq> -1)"

definition IsOpen :: "Group \<Rightarrow> bool" where
  "IsOpen g = (Status g = 0)"

definition IsOwner :: "Group \<Rightarrow> int64 \<Rightarrow> bool" where
  "IsOwner g uid = (OwnerID g = uid)"

definition IsPrivate :: "Group \<Rightarrow> bool" where
  "IsPrivate g = (Password g \<noteq> [])"

text \<open>\<open>ValidatePassword\<close> returns an error (here its message) or nil.\<close>

definition ValidatePassword :: "Group \<Rightarrow> string \<Rightarrow> string option" where
  "ValidatePassword g pw =
     (if Password g \<noteq> pw then Some ''incorrect group password'' else None)"

definition ValidateForCreate :: "Group \<Rightarrow> ValidationError option" where
  "ValidateForCreate g =
     (let errors1 =
            (if Title g = [] then
               [\<lparr>Name = ''title'', Error = ''This field is required''\<rparr>]
             else if length (Title g) > 50 then
               [\<lparr>Name = ''title'',
                 Error = ''This field cannot be more than 50 characters long''\<rparr>]
             else []);
          errors2 = errors1 @
            (if Description g = [] then
               [\<lparr>Name = ''description'', Error = ''This field is required''\<rparr>]
             else if length (Description g) > 200 then
               [\<lparr>Name = ''description'',
                 Error = ''This field cannot be more than 200 characters long''\<rparr>]
             else []);
          errors3 = errors2 @
            (if sint (MaxSize g) < 5 \<or> sint (MaxSize g) > 200 then
               [\<lparr>Name = ''max_size'', Error = ''The value should range from 5 to 200''\<rparr>]
             else [])
      in if length errors3 > 0 then
           Some \<lparr>VE_Message = ''The new group is not valid'', Errors = errors3\<rparr>
         else None)"

definition ValidateForSignUp :: "User \<Rightarrow> ValidationError option" where
  "ValidateForSignUp u =
     (let errors1 =
            (if Username u = [] then
               [\<lparr>Name = ''username'', Error = ''This field is required''\<rparr>]
             else if length (Username u) > 50 then
               [\<lparr>Name = ''username'',
                 Error = ''This field cannot be more than 50 characters long''\<rparr>]
             else []);
          errors2 = errors1 @
            (if User_Password u = [] then
               [\<lparr>Name = ''password'', Error = ''This field is required''\<rparr>]
             else if length (User_Password u) < 8 \<or> length (User_Password u) > 200 then
               [\<lparr>Name = ''password'',
                 Error = ''This field has to be 8 to 50 characters long''\<rparr>]
             else [])
      in if length errors2 > 0 then
           Some \<lparr>VE_Message = ''The request body contains errors'', Errors = errors2\<rparr>
         else None)"

section \<open>Library functions the handlers call\<close>

fun HasPrefix :: "string \<Rightarrow> string \<Rightarrow> bool" where
  "HasPrefix s [] = True"
| "HasPrefix [] (p # ps) = False"
| "HasPrefix (x # xs) (p # ps) = (x = p \<and> HasPrefix xs ps)"

text \<open>\<open>strings.Contains\<close>: the second string occurs in the first.\<close>

fun Contains :: "string \<Rightarrow> string \<Rightarrow> bool" where
  "Contains [] sub = (sub = [])"
| "Contains (x # xs) sub = (HasPrefix (x # xs) sub \<or> Contains xs sub)"

text \<open>\<open>strings.Split\<close> at a one-byte separator: one more part than separators, so
  never an empty slice.\<close>

fun Split :: "string \<Rightarrow> char \<Rightarrow> string list" where
  "Split [] sep = [[]]"
| "Split (x # xs) sep =
     (if x = sep then [] # Split xs sep
      else (case Split xs sep of [] \<Rightarrow> [[x]] | p # ps \<Rightarrow> (x # p) # ps))"

text \<open>\<open>strconv.ParseInt(s, 10, 64)\<close>: an optional sign, then at least one decimal digit,
  and a value in the \<open>int64\<close> range; anything else is an error (\<open>None\<close>).\<close>

definition digit_val :: "char \<Rightarrow> nat option" where
  "digit_val ch =
     (let n = (of_char ch :: nat) in if 48 \<le> n \<and> n \<le> 57 then Some (n - 48) else None)"

fun parse_digits :: "string \<Rightarrow> nat \<Rightarrow> nat option" where
  "parse_digits [] acc = Some acc"
| "parse_digits (ch # cs) acc =
     (case digit_val ch of None \<Rightarrow> None | Some d \<Rightarrow> parse_digits cs (10 * acc + d))"

definition ParseInt :: "string \<Rightarrow> int64 option" where
  "ParseInt s =
     (case s of
        [] \<Rightarrow> None
      | ch # cs \<Rightarrow>
          (let neg = (ch = CHR ''-'');
               ds = (if ch = CHR ''-'' \<or> ch = CHR ''+'' then cs else s)
           in if ds = [] then None
              else (case parse_digits ds 0 of
                      None \<Rightarrow> None
                    | Some n \<Rightarrow>
                        if neg then (if n \<le> 2 ^ 63 then Some (- word_of_nat n) else None)
                        else (if n < 2 ^ 63 then Some (word_of_nat n) else None))))"

section \<open>The world a request runs in\<close>

text \<open>
  Everything outside the repository that a handler consults is an input of the model:
  the outcome of each database call (a driver error can be injected per operation),
  of the JWT library, of bcrypt, and the clock. The SQLite file is a pair of tables;
  the \<open>joined_groups\<close> join table is kept inline as each group row's \<open>Members\<close>.
\<close>

datatype ClaimValue = Int64Claim int64 | Float64Claim int | StringClaim string

text \<open>A parsed token. JSON numbers decode to \<open>float64\<close>; the tokens this server signs
  carry an integral \<open>user_id\<close>, which \<open>Float64Claim\<close> holds.\<close>

record Token =
  Claims :: "string \<rightharpoonup> ClaimValue"
  Valid :: bool

datatype DBOp =
    OpOpen | OpAutoMigrate
  | OpGroupCreate | OpGroupFind | OpGroupFirst | OpGroupSave | OpGroupMembersDelete
  | OpUserCreate | OpUserFirst | OpUserFirstByUsername

record Env =
  Fault :: "DBOp \<Rightarrow> string option"
  jwt_Parse :: "string \<Rightarrow> Token option \<times> string option"
  jwt_SignedString :: "(string \<rightharpoonup> ClaimValue) \<Rightarrow> string \<times> string option"
  bcrypt_GenerateFromPassword :: "string \<Rightarrow> string \<times> string option"
  bcrypt_CompareHashAndPassword :: "string \<Rightarrow> string \<Rightarrow> string option"
  time_Now_Unix :: int64

record Database =
  groups :: "Group list"
  users :: "User list"

text \<open>The request as the handlers read it: the \<open>Authorization\<close> header, the \<open>:id\<close>
  URL parameter, and what \<open>ShouldBindWith(&req, binding.JSON)\<close> gives for the body when
  bound to a \<open>schemas.Group\<close> or to a \<open>schemas.User\<close> (\<open>Inl\<close> is the error message,
  \<open>''EOF''\<close> for an absent body).\<close>

record Request =
  Header_Authorization :: string
  Param_id :: string
  Bind_Group :: "string + Group"
  Bind_User :: "string + User"

datatype KeyValue = GroupVal Group | UserVal User | Int64Val int64

datatype JSONBody =
    ErrorBody BodyError
  | GroupBody Group
  | GroupListBody "Group list"
  | TokenBody TokenResponse
  | EmptyBody

text \<open>
  \<open>gin.Context\<close>, together with the world the handlers act on. \<open>aborted\<close> is gin's
  \<open>IsAborted()\<close>; \<open>Writer\<close> is the status and JSON body written so far; \<open>Log\<close> holds
  the errors that the data methods log when a database call fails.
\<close>

record Context =
  env :: Env
  Req :: Request
  Keys :: "string \<rightharpoonup> KeyValue"
  aborted :: bool
  Writer :: "(nat \<times> JSONBody) option"
  DB :: Database
  Log :: "string list"

text \<open>How a handler chain ends: normally, by a Go panic, or by \<open>os.Exit(1)\<close>.\<close>

datatype Result = Done Context | Panic string Context | OsExit Context

text \<open>What a data method gives back to its caller: it returns, or the process exits
  inside it. logrus's \<open>Fatal\<close> and \<open>Fatalf\<close> write the entry and then call
  \<open>os.Exit(1)\<close>, so the \<open>return\<close> that follows them in the source is never reached.\<close>

datatype 'a Call = Exit Context | Return 'a

definition logError :: "string \<Rightarrow> Context \<Rightarrow> Context" where
  "logError e c = c\<lparr>Log := Log c @ [e]\<rparr>"

subsection \<open>gin\<close>

definition AbortWithStatusJSON :: "nat \<Rightarrow> JSONBody \<Rightarrow> Context \<Rightarrow> Context" where
  "AbortWithStatusJSON code body c = c\<lparr>aborted := True, Writer := Some (code, body)\<rparr>"

definition JSON :: "nat \<Rightarrow> JSONBody \<Rightarrow> Context \<Rightarrow> Context" where
  "JSON code body c = c\<lparr>Writer := Some (code, body)\<rparr>"

definition Set_key :: "string \<Rightarrow> KeyValue \<Rightarrow> Context \<Rightarrow> Context" where
  "Set_key k v c = c\<lparr>Keys := (Keys c)(k \<mapsto> v)\<rparr>"

text \<open>\<open>c.GetInt64\<close>: 0 when the key is absent or holds another type.\<close>

definition GetInt64 :: "Context \<Rightarrow> string \<Rightarrow> int64" where
  "GetInt64 c k = (case Keys c k of Some (Int64Val v) \<Rightarrow> v | _ \<Rightarrow> 0)"

text \<open>The comma-ok type assertions \<open>c.Keys[k].(schemas.Group)\<close> and
  \<open>c.Keys[k].(schemas.User)\<close>: \<open>None\<close> is \<open>ok == false\<close>.\<close>

definition Keys_Group :: "Context \<Rightarrow> string \<Rightarrow> Group option" where
  "Keys_Group c k = (case Keys c k of Some (GroupVal g) \<Rightarrow> Some g | _ \<Rightarrow> None)"

definition Keys_User :: "Context \<Rightarrow> string \<Rightarrow> User option" where
  "Keys_User c k = (case Keys c k of Some (UserVal u) \<Rightarrow> Some u | _ \<Rightarrow> None)"

text \<open>With the result of \<open>ok\<close> dropped (\<open>g, _ := ...\<close>) a failed assertion leaves the
  zero value.\<close>

definition Keys_Group0 :: "Context \<Rightarrow> string \<Rightarrow> Group" where
  "Keys_Group0 c k = (case Keys_Group c k of Some g \<Rightarrow> g | None \<Rightarrow> zero_Group)"

definition Keys_User0 :: "Context \<Rightarrow> string \<Rightarrow> User" where
  "Keys_User0 c k = (case Keys_User c k of Some u \<Rightarrow> u | None \<Rightarrow> zero_User)"

text \<open>
  A handler receives \<open>c.Next\<close> as its first argument. gin runs the handlers of a route
  in the order of registration; \<open>Abort\<close> moves the index past the end of the chain, so
  that after it neither the engine nor a \<open>c.Next()\<close> inside a handler runs anything
  further. Every handler of this repository that does not abort ends with \<open>c.Next()\<close>
  or is the last of its chain, which is what lets the chain be a plain list recursion.
\<close>

type_synonym HandlerFunc = "(Context \<Rightarrow> Result) \<Rightarrow> Context \<Rightarrow> Result"

fun Next :: "HandlerFunc list \<Rightarrow> Context \<Rightarrow> Result" where
  "Next [] c = Done c"
| "Next (h # hs) c = (if aborted c then Done c else h (Next hs) c)"

text \<open>\<open>gin.Default()\<close> installs the recovery middleware: a panic below it becomes a
  bare 500.\<close>

definition Recovery :: HandlerFunc where
  "Recovery nxt c =
     (case nxt c of
        Panic msg c' \<Rightarrow> Done (c'\<lparr>aborted := True, Writer := Some (500, EmptyBody)\<rparr>)
      | r \<Rightarrow> r)"

section \<open>Data methods (schemas.Group, schemas.User, data.CreateConnection)\<close>

text \<open>
  Each gorm call is a function of the tables that gives an error message (\<open>Inl\<close>) or
  its result. A driver error injected for the operation comes first; otherwise the
  call fails where the table content makes it fail (no such row, a key taken).
\<close>

text \<open>\<open>preloadUser\<close> selects id, username and created_at of a member: no password.\<close>

definition preloadUser :: "User \<Rightarrow> User" where
  "preloadUser u = u\<lparr>User_Password := []\<rparr>"

text \<open>\<open>Select(fields)\<close>: a column that is not named is read as the zero value. The
  members are preloaded in every query of a group.\<close>

definition SelectFields :: "string list \<Rightarrow> Group \<Rightarrow> Group" where
  "SelectFields cols r =
     \<lparr>ID = (if ''id'' \<in> set cols then ID r else 0),
      Title = (if ''title'' \<in> set cols then Title r else []),
      Description = (if ''description'' \<in> set cols then Description r else []),
      Status = (if ''status'' \<in> set cols then Status r else 0),
      Password = (if ''password'' \<in> set cols then Password r else []),
      MaxSize = (if ''max_size'' \<in> set cols then MaxSize r else 0),
      OwnerID = (if ''owner_id'' \<in> set cols then OwnerID r else 0),
      Members = map preloadUser (Members r)\<rparr>"

definition find_group :: "Database \<Rightarrow> int64 \<Rightarrow> Group option" where
  "find_group db gid = find (\<lambda>r. ID r = gid) (groups db)"

definition find_user :: "Database \<Rightarrow> int64 \<Rightarrow> User option" where
  "find_user db uid = find (\<lambda>r. User_ID r = uid) (users db)"

text \<open>The id SQLite gives a row inserted without one: the largest id in use, plus one.\<close>

definition next_group_id :: "Group list \<Rightarrow> int64" where
  "next_group_id rows = fold (\<lambda>r m. if sint m < sint (ID r) then ID r else m) rows 0 + 1"

definition next_user_id :: "User list \<Rightarrow> int64" where
  "next_user_id rows =
     fold (\<lambda>r m. if sint m < sint (User_ID r) then User_ID r else m) rows 0 + 1"

text \<open>\<open>Save\<close> writes every field of the struct to the row with its primary key, and
  inserts the row when there is none.\<close>

definition save_row :: "Group \<Rightarrow> Group list \<Rightarrow> Group list" where
  "save_row g rows =
     (if find (\<lambda>r. ID r = ID g) rows = None then rows @ [g]
      else map (\<lambda>r. if ID r = ID g then g else r) rows)"

definition delete_member :: "int64 \<Rightarrow> int64 \<Rightarrow> Group list \<Rightarrow> Group list" where
  "delete_member gid uid rows =
     map (\<lambda>r. if ID r = gid then r\<lparr>Members := filter (\<lambda>m. User_ID m \<noteq> uid) (Members r)\<rparr>
               else r) rows"

definition gorm_First_Group :: "Context \<Rightarrow> string list \<Rightarrow> int64 \<Rightarrow> string + Group" where
  "gorm_First_Group c cols gid =
     (case Fault (env c) OpGroupFirst of
        Some e \<Rightarrow> Inl e
      | None \<Rightarrow>
          (case find_group (DB c) gid of
             None \<Rightarrow> Inl ''record not found''
           | Some r \<Rightarrow> Inr (SelectFields cols r)))"

definition gorm_Find_Groups :: "Context \<Rightarrow> string list \<Rightarrow> string + Group list" where
  "gorm_Find_Groups c cols =
     (case Fault (env c) OpGroupFind of
        Some e \<Rightarrow> Inl e
      | None \<Rightarrow> Inr (map (SelectFields cols) (groups (DB c))))"

text \<open>\<open>Create\<close> fills the id and the column default of \<open>max_size\<close> where the struct has
  the zero value, and stores the struct as it is otherwise.\<close>

definition gorm_Create_Group :: "Context \<Rightarrow> Group \<Rightarrow> string + (Group \<times> Context)" where
  "gorm_Create_Group c g =
     (case Fault (env c) OpGroupCreate of
        Some e \<Rightarrow> Inl e
      | None \<Rightarrow>
          if ID g \<noteq> 0 \<and> find_group (DB c) (ID g) \<noteq> None then
            Inl ''UNIQUE constraint failed: groups.id''
          else
            (let g1 = g\<lparr>ID := (if ID g = 0 then next_group_id (groups (DB c)) else ID g),
                        MaxSize := (if MaxSize g = 0 then 5 else MaxSize g)\<rparr>
             in Inr (g1, c\<lparr>DB := (DB c)\<lparr>groups := groups (DB c) @ [g1]\<rparr>\<rparr>)))"

definition gorm_Save_Group :: "Context \<Rightarrow> Group \<Rightarrow> string + Context" where
  "gorm_Save_Group c g =
     (case Fault (env c) OpGroupSave of
        Some e \<Rightarrow> Inl e
      | None \<Rightarrow> Inr (c\<lparr>DB := (DB c)\<lparr>groups := save_row g (groups (DB c))\<rparr>\<rparr>))"

definition gorm_Delete_Member :: "Context \<Rightarrow> Group \<Rightarrow> User \<Rightarrow> string + (Group \<times> Context)" where
  "gorm_Delete_Member c g u =
     (case Fault (env c) OpGroupMembersDelete of
        Some e \<Rightarrow> Inl e
      | None \<Rightarrow>
          Inr (g\<lparr>Members := filter (\<lambda>m. User_ID m \<noteq> User_ID u) (Members g)\<rparr>,
               c\<lparr>DB := (DB c)\<lparr>groups := delete_member (ID g) (User_ID u) (groups (DB c))\<rparr>\<rparr>))"

text \<open>\<open>BeforeCreate\<close> replaces the password by its bcrypt hash; its error fails the
  \<open>Create\<close>. The username column is unique.\<close>

definition gorm_Create_User :: "Context \<Rightarrow> User \<Rightarrow> string + (User \<times> Context)" where
  "gorm_Create_User c u =
     (case Fault (env c) OpUserCreate of
        Some e \<Rightarrow> Inl e
      | None \<Rightarrow>
          (case bcrypt_GenerateFromPassword (env c) (User_Password u) of
             (hashedPw, Some e) \<Rightarrow> Inl e
           | (hashedPw, None) \<Rightarrow>
               if find (\<lambda>r. Username r = Username u) (users (DB c)) \<noteq> None then
                 Inl ''UNIQUE constraint failed: users.username''
               else if User_ID u \<noteq> 0 \<and> find_user (DB c) (User_ID u) \<noteq> None then
                 Inl ''UNIQUE constraint failed: users.id''
               else
                 (let u1 = u\<lparr>User_ID := (if User_ID u = 0 then next_user_id (users (DB c))
                                          else User_ID u),
                             User_Password := hashedPw\<rparr>
                  in Inr (u1, c\<lparr>DB := (DB c)\<lparr>users := users (DB c) @ [u1]\<rparr>\<rparr>))))"

definition gorm_First_User :: "Context \<Rightarrow> int64 \<Rightarrow> string + User" where
  "gorm_First_User c uid =
     (case Fault (env c) OpUserFirst of
        Some e \<Rightarrow> Inl e
      | None \<Rightarrow>
          (case find_user (DB c) uid of
             None \<Rightarrow> Inl ''record not found''
           | Some r \<Rightarrow> Inr (preloadUser r)))"

text \<open>\<open>Where("username = ?", u.Username).First(&u)\<close>: gorm adds the primary key of the
  destination struct to the condition when it is not zero.\<close>

definition gorm_First_User_by_Username :: "Context \<Rightarrow> User \<Rightarrow> string + User" where
  "gorm_First_User_by_Username c u =
     (case Fault (env c) OpUserFirstByUsername of
        Some e \<Rightarrow> Inl e
      | None \<Rightarrow>
          (case find (\<lambda>r. Username r = Username u \<and> (User_ID u = 0 \<or> User_ID r = User_ID u))
                  (users (DB c)) of
             None \<Rightarrow> Inl ''record not found''
           | Some r \<Rightarrow> Inr r))"

subsection \<open>data.CreateConnection and InitDB\<close>

definition CreateConnection :: "Context \<Rightarrow> (string option) Call" where
  "CreateConnection c =
     (case Fault (env c) OpOpen of
        Some e \<Rightarrow> Exit (logError e c)
      | None \<Rightarrow> Return None)"

definition Migrate :: "Context \<Rightarrow> (string option) Call" where
  "Migrate c =
     (case Fault (env c) OpAutoMigrate of
        Some e \<Rightarrow> Exit (logError e c)
      | None \<Rightarrow> Return None)"

text \<open>\<open>InitDB\<close> of a group and of a user are the same code: the error of
  \<open>CreateConnection\<close> is returned, the result of \<open>Migrate\<close> is dropped.\<close>

definition InitDB :: "Context \<Rightarrow> (string option) Call" where
  "InitDB c =
     (case CreateConnection c of
        Exit c' \<Rightarrow> Exit c'
      | Return (Some err) \<Rightarrow> Return (Some err)
      | Return None \<Rightarrow>
          (case Migrate c of
             Exit c' \<Rightarrow> Exit c'
           | Return r \<Rightarrow> Return None))"

subsection \<open>Methods of a group\<close>

definition retrieveGroup :: "Context \<Rightarrow> Group \<Rightarrow> string list \<Rightarrow> (string option \<times> Group) Call" where
  "retrieveGroup c g cols =
     (case gorm_First_Group c cols (ID g) of
        Inl e \<Rightarrow> Exit (logError e c)
      | Inr g' \<Rightarrow> Return (None, g'))"

definition Group_Create :: "Context \<Rightarrow> Group \<Rightarrow> (string option \<times> Group \<times> Context) Call" where
  "Group_Create c g =
     (case gorm_Create_Group c g of
        Inl e \<Rightarrow> Exit (logError e c)
      | Inr (g', c') \<Rightarrow> Return (None, g', c'))"

definition List :: "Context \<Rightarrow> (Group list \<times> string option) Call" where
  "List c =
     (case gorm_Find_Groups c
             [''id'', ''title'', ''description'', ''status'',
              ''max_size'', ''created_at'', ''owner_id''] of
        Inl e \<Rightarrow> Exit (logError e c)
      | Inr gs \<Rightarrow> Return (gs, None))"

definition Retrieve :: "Context \<Rightarrow> Group \<Rightarrow> (string option \<times> Group) Call" where
  "Retrieve c g =
     retrieveGroup c g
       [''id'', ''title'', ''description'',
        ''status'', ''max_size'', ''created_at'', ''owner_id'']"

definition RetrieveWithPassword :: "Context \<Rightarrow> Group \<Rightarrow> (string option \<times> Group) Call" where
  "RetrieveWithPassword c g =
     retrieveGroup c g
       [''id'', ''title'', ''description'', ''password'',
        ''status'', ''max_size'', ''created_at'', ''owner_id'']"

definition Update :: "Context \<Rightarrow> Group \<Rightarrow> (string option \<times> Context) Call" where
  "Update c g =
     (case gorm_Save_Group c g of
        Inl e \<Rightarrow> Exit (logError e c)
      | Inr c' \<Rightarrow> Return (None, c'))"

definition RemoveMember :: "Context \<Rightarrow> Group \<Rightarrow> User \<Rightarrow> (string option \<times> Group \<times> Context) Call" where
  "RemoveMember c g u =
     (case gorm_Delete_Member c g u of
        Inl e \<Rightarrow> Exit (logError e c)
      | Inr (g', c') \<Rightarrow> Return (None, g', c'))"

subsection \<open>Methods of a user\<close>

definition User_Create :: "Context \<Rightarrow> User \<Rightarrow> (string option \<times> User \<times> Context) Call" where
  "User_Create c u =
     (case gorm_Create_User c u of
        Inl e \<Rightarrow> Exit (logError e c)
      | Inr (u', c') \<Rightarrow> Return (None, u', c'))"

definition User_Retrieve :: "Context \<Rightarrow> User \<Rightarrow> (string option \<times> User) Call" where
  "User_Retrieve c u =
     (case gorm_First_User c (User_ID u) of
        Inl e \<Rightarrow> Exit (logError e c)
      | Inr u' \<Rightarrow> Return (None, u'))"

text \<open>The one data method that logs its error with \<open>Errorf\<close> and so returns it.\<close>

definition RetrieveByUsername :: "Context \<Rightarrow> User \<Rightarrow> string option \<times> User \<times> Context" where
  "RetrieveByUsername c u =
     (case gorm_First_User_by_Username c u of
        Inl e \<Rightarrow> (Some e, u, logError e c)
      | Inr u' \<Rightarrow> (None, u', c))"

section \<open>Middlewares (package middlewares)\<close>

definition BodyInternalServerError :: BodyError where
  "BodyInternalServerError =
     \<lparr>Message = ''An internal error occurred in the server'', FieldErrors = []\<rparr>"

definition BodyNotFound :: BodyError where
  "BodyNotFound =
     \<lparr>Message = ''The requested resource could not be found'', FieldErrors = []\<rparr>"

text \<open>\<open>schemas.BodyError{Message: msg}\<close>.\<close>

definition BodyMessage :: "string \<Rightarrow> JSONBody" where
  "BodyMessage msg = ErrorBody \<lparr>Message = msg, FieldErrors = []\<rparr>"

subsection \<open>Authentication\<close>

text \<open>\<open>jwt.Parse\<close> returns a token pointer, which is nil for some malformed inputs,
  and an error; reading \<open>token.Claims\<close> through a nil pointer panics (\<open>Inl\<close>).\<close>

definition parseJwt :: "Env \<Rightarrow> string \<Rightarrow> string + ((string \<rightharpoonup> ClaimValue) \<times> string option)" where
  "parseJwt e t =
     (case jwt_Parse e t of
        (None, err) \<Rightarrow> Inl ''invalid memory address or nil pointer dereference''
      | (Some token, err) \<Rightarrow>
          if Valid token then Inr (Claims token, None)
          else Inr (Map.empty, err))"

definition AuthenticateRequests :: HandlerFunc where
  "AuthenticateRequests nxt c =
     (let ah = Header_Authorization (Req c) in
      if ah = [] then
        Done (AbortWithStatusJSON 401 (BodyMessage ''Authorization header is missing'') c)
      else
        (case Split ah CHR '' '' of
           p0 # token # rest \<Rightarrow>
             (case parseJwt (env c) token of
                Inl msg \<Rightarrow> Panic msg c
              | Inr (claims, Some err) \<Rightarrow>
                  if Contains err ''unexpected signing method'' then
                    Done (AbortWithStatusJSON 401 (BodyMessage ''Token is invalid'') c)
                  else
                    Done (AbortWithStatusJSON 500 (ErrorBody BodyInternalServerError) c)
              | Inr (claims, None) \<Rightarrow>
                  (case claims ''user_id'' of
                     Some (Float64Claim uid) \<Rightarrow>
                       nxt (Set_key ''user_id'' (Int64Val (word_of_int uid)) c)
                   | _ \<Rightarrow> Panic ''interface conversion: interface {} is not float64'' c))
         | _ \<Rightarrow> Panic ''index out of range [1] with length 1'' c))"

subsection \<open>Request bodies\<close>

definition UserRequestBody :: HandlerFunc where
  "UserRequestBody nxt c =
     (case Bind_User (Req c) of
        Inl err \<Rightarrow> Done (AbortWithStatusJSON 500 (ErrorBody BodyInternalServerError) c)
      | Inr req \<Rightarrow> nxt (Set_key ''req'' (UserVal req) c))"

definition GroupRequestBody :: HandlerFunc where
  "GroupRequestBody nxt c =
     (case Bind_Group (Req c) of
        Inl err \<Rightarrow> Done (AbortWithStatusJSON 500 (ErrorBody BodyInternalServerError) c)
      | Inr req \<Rightarrow> nxt (Set_key ''req'' (GroupVal req) c))"

subsection \<open>The group of the URL\<close>

definition GroupObject :: HandlerFunc where
  "GroupObject nxt c =
     (case ParseInt (Param_id (Req c)) of
        None \<Rightarrow> Done (AbortWithStatusJSON 500 (ErrorBody BodyInternalServerError) c)
      | Some gid \<Rightarrow>
          (case InitDB c of
             Exit c' \<Rightarrow> OsExit c'
           | Return (Some err) \<Rightarrow>
               Done (AbortWithStatusJSON 500 (ErrorBody BodyInternalServerError) c)
           | Return None \<Rightarrow>
               (case RetrieveWithPassword c (zero_Group\<lparr>ID := gid\<rparr>) of
                  Exit c' \<Rightarrow> OsExit c'
                | Return (Some err, g) \<Rightarrow>
                    if Contains err ''record not found'' then
                      Done (AbortWithStatusJSON 404 (ErrorBody BodyNotFound) c)
                    else
                      Done (AbortWithStatusJSON 500 (ErrorBody BodyInternalServerError) c)
                | Return (None, g) \<Rightarrow> nxt (Set_key ''obj'' (GroupVal g) c))))"

subsection \<open>Permission checks\<close>

text \<open>\<open>AllowIfGroupIsNotFull\<close> has no \<open>return\<close> after its abort: it goes on to
  \<open>c.Next()\<close> with the aborted context.\<close>

definition AllowIfGroupIsNotFull :: HandlerFunc where
  "AllowIfGroupIsNotFull nxt c =
     (case Keys_Group c ''obj'' of
        None \<Rightarrow> Done (AbortWithStatusJSON 500 (ErrorBody BodyInternalServerError) c)
      | Some g \<Rightarrow>
          (let c1 = (if IsFull g then AbortWithStatusJSON 400 (BodyMessage ''Group is full'') c
                     else c)
           in nxt c1))"

definition AllowIfUserIsNotMember :: HandlerFunc where
  "AllowIfUserIsNotMember nxt c =
     (case Keys_Group c ''obj'' of
        None \<Rightarrow> Done (AbortWithStatusJSON 500 (ErrorBody BodyInternalServerError) c)
      | Some g \<Rightarrow>
          (let uid = GetInt64 c ''user_id'' in
           if IsMember g uid then
             Done (AbortWithStatusJSON 400 (BodyMessage ''User is a member of the group'') c)
           else nxt c))"

definition AllowIfUserIsNotOwner :: HandlerFunc where
  "AllowIfUserIsNotOwner nxt c =
     (case Keys_Group c ''obj'' of
        None \<Rightarrow> Done (AbortWithStatusJSON 500 (ErrorBody BodyInternalServerError) c)
      | Some g \<Rightarrow>
          (let uid = GetInt64 c ''user_id'' in
           if IsOwner g uid then
             Done (AbortWithStatusJSON 400 (BodyMessage ''User is the owner of the group'') c)
           else nxt c))"

definition AllowIfUserIsOwner :: HandlerFunc where
  "AllowIfUserIsOwner nxt c =
     (case Keys_Group c ''obj'' of
        None \<Rightarrow> Done (AbortWithStatusJSON 500 (ErrorBody BodyInternalServerError) c)
      | Some g \<Rightarrow>
          (let uid = GetInt64 c ''user_id'' in
           if \<not> IsOwner g uid then
             Done (AbortWithStatusJSON 400
                     (BodyMessage ''User is not the owner of the group'') c)
           else nxt c))"

definition AllowIfUserIsMember :: HandlerFunc where
  "AllowIfUserIsMember nxt c =
     (case Keys_Group c ''obj'' of
        None \<Rightarrow> Done (AbortWithStatusJSON 500 (ErrorBody BodyInternalServerError) c)
      | Some g \<Rightarrow>
          (let uid = GetInt64 c ''user_id'' in
           if \<not> IsMember g uid then
             Done (AbortWithStatusJSON 400
                     (BodyMessage ''User is not a member of the group'') c)
           else nxt c))"

definition AllowIfCorrectGroupPassword :: HandlerFunc where
  "AllowIfCorrectGroupPassword nxt c =
     (case Keys_Group c ''obj'' of
        None \<Rightarrow> Done (AbortWithStatusJSON 404 (ErrorBody BodyNotFound) c)
      | Some g \<Rightarrow>
          if \<not> IsPrivate g then nxt c
          else
            (case Bind_Group (Req c) of
               Inl err \<Rightarrow>
                 if err = ''EOF'' then
                   Done (AbortWithStatusJSON 400 (BodyMessage ''Group password is required'') c)
                 else
                   Done (AbortWithStatusJSON 500 (ErrorBody BodyInternalServerError) c)
             | Inr req \<Rightarrow>
                 (case ValidatePassword g (Password req) of
                    Some err \<Rightarrow>
                      Done (AbortWithStatusJSON 403 (BodyMessage ''Incorrect password'') c)
                  | None \<Rightarrow> nxt c)))"

definition AllowIfGroupIsOpen :: HandlerFunc where
  "AllowIfGroupIsOpen nxt c =
     (case Keys_Group c ''obj'' of
        None \<Rightarrow> Done (AbortWithStatusJSON 500 (ErrorBody BodyInternalServerError) c)
      | Some g \<Rightarrow>
          if \<not> IsOpen g then
            Done (AbortWithStatusJSON 400 (BodyMessage ''Group is not open'') c)
          else nxt c)"

section \<open>Endpoints (package endpoints)\<close>

definition CloseGroup :: HandlerFunc where
  "CloseGroup nxt c =
     (let g = Keys_Group0 c ''obj'';
          g1 = g\<lparr>Status := - 100\<rparr>
      in case Update c g1 of
           Exit c' \<Rightarrow> OsExit c'
         | Return (Some err, c') \<Rightarrow>
             Done (AbortWithStatusJSON 500 (ErrorBody BodyInternalServerError) c')
         | Return (None, c') \<Rightarrow> Done (JSON 200 (GroupBody (g1\<lparr>Password := []\<rparr>)) c'))"

definition CreateGroup :: HandlerFunc where
  "CreateGroup nxt c =
     (let req = Keys_Group0 c ''req'' in
      case ValidateForCreate req of
        Some validationError \<Rightarrow>
          Done (AbortWithStatusJSON 400
                  (ErrorBody \<lparr>Message = VE_Message validationError,
                              FieldErrors = Errors validationError\<rparr>) c)
      | None \<Rightarrow>
          (case InitDB c of
             Exit c' \<Rightarrow> OsExit c'
           | Return (Some err) \<Rightarrow>
               Done (AbortWithStatusJSON 500 (ErrorBody BodyInternalServerError) c)
           | Return None \<Rightarrow>
               (let req1 = req\<lparr>OwnerID := GetInt64 c ''user_id''\<rparr> in
                case Group_Create c req1 of
                  Exit c' \<Rightarrow> OsExit c'
                | Return (Some err, req2, c') \<Rightarrow>
                    Done (AbortWithStatusJSON 500 (ErrorBody BodyInternalServerError) c')
                | Return (None, req2, c') \<Rightarrow>
                    Done (JSON 201 (GroupBody (req2\<lparr>Password := []\<rparr>)) c'))))"

definition JoinGroup :: HandlerFunc where
  "JoinGroup nxt c =
     (let g = Keys_Group0 c ''obj'';
          g1 = g\<lparr>Members := Members g @ [zero_User\<lparr>User_ID := GetInt64 c ''user_id''\<rparr>]\<rparr>
      in case Update c g1 of
           Exit c' \<Rightarrow> OsExit c'
         | Return (Some err, c') \<Rightarrow>
             Done (AbortWithStatusJSON 500 (ErrorBody BodyInternalServerError) c')
         | Return (None, c') \<Rightarrow> Done (JSON 200 (GroupBody (g1\<lparr>Password := []\<rparr>)) c'))"

definition KickFromGroup :: HandlerFunc where
  "KickFromGroup nxt c =
     (let req = Keys_User0 c ''req'';
          g = Keys_Group0 c ''obj''
      in case InitDB c of
           Exit c' \<Rightarrow> OsExit c'
         | Return (Some err) \<Rightarrow>
             Done (AbortWithStatusJSON 500 (ErrorBody BodyInternalServerError) c)
         | Return None \<Rightarrow>
             (case User_Retrieve c req of
                Exit c' \<Rightarrow> OsExit c'
              | Return (Some err, req1) \<Rightarrow>
                  if Contains err ''record not found'' then
                    Done (AbortWithStatusJSON 404 (ErrorBody BodyNotFound) c)
                  else
                    Done (AbortWithStatusJSON 500 (ErrorBody BodyInternalServerError) c)
              | Return (None, req1) \<Rightarrow>
                  if \<not> IsMember g (User_ID req1) then
                    Done (AbortWithStatusJSON 400
                            (BodyMessage ''The user to kick is not a member'') c)
                  else
                    (case RemoveMember c g req1 of
                       Exit c' \<Rightarrow> OsExit c'
                     | Return (Some err, g1, c') \<Rightarrow>
                         Done (AbortWithStatusJSON 500 (ErrorBody BodyInternalServerError) c')
                     | Return (None, g1, c') \<Rightarrow>
                         Done (JSON 200 (GroupBody (g1\<lparr>Password := []\<rparr>)) c'))))"

definition LeaveGroup :: HandlerFunc where
  "LeaveGroup nxt c =
     (let g = Keys_Group0 c ''obj'';
          u = zero_User\<lparr>User_ID := GetInt64 c ''user_id''\<rparr>
      in case InitDB c of
           Exit c' \<Rightarrow> OsExit c'
         | Return (Some err) \<Rightarrow>
             Done (AbortWithStatusJSON 500 (ErrorBody BodyInternalServerError) c)
         | Return None \<Rightarrow>
             (case User_Retrieve c u of
                Exit c' \<Rightarrow> OsExit c'
              | Return (Some err, u1) \<Rightarrow>
                  Done (AbortWithStatusJSON 500 (ErrorBody BodyInternalServerError) c)
              | Return (None, u1) \<Rightarrow>
                  (case RemoveMember c g u1 of
                     Exit c' \<Rightarrow> OsExit c'
                   | Return (Some err, g1, c') \<Rightarrow>
                       Done (AbortWithStatusJSON 500 (ErrorBody BodyInternalServerError) c')
                   | Return (None, g1, c') \<Rightarrow>
                       Done (JSON 200 (GroupBody (g1\<lparr>Password := []\<rparr>)) c'))))"

definition ListGroups :: HandlerFunc where
  "ListGroups nxt c =
     (case InitDB c of
        Exit c' \<Rightarrow> OsExit c'
      | Return (Some err) \<Rightarrow>
          Done (AbortWithStatusJSON 500 (ErrorBody BodyInternalServerError) c)
      | Return None \<Rightarrow>
          (case List c of
             Exit c' \<Rightarrow> OsExit c'
           | Return (gs, Some err) \<Rightarrow>
               Done (AbortWithStatusJSON 500 (ErrorBody BodyInternalServerError) c)
           | Return (gs, None) \<Rightarrow> Done (JSON 200 (GroupListBody gs) c)))"

definition RetrieveGroup :: HandlerFunc where
  "RetrieveGroup nxt c =
     (let g = Keys_Group0 c ''obj'' in
      Done (JSON 200 (GroupBody (g\<lparr>Password := []\<rparr>)) c))"

definition UpdateGroup :: HandlerFunc where
  "UpdateGroup nxt c =
     (let req = Keys_Group0 c ''req'';
          g = Keys_Group0 c ''obj'';
          g1 = (if Title req \<noteq> [] then g\<lparr>Title := Title req\<rparr> else g);
          g2 = (if Description req \<noteq> [] then g1\<lparr>Description := Description req\<rparr> else g1);
          g3 = (if MaxSize req \<noteq> 0 then g2\<lparr>MaxSize := MaxSize req\<rparr> else g2)
      in case Update c g3 of
           Exit c' \<Rightarrow> OsExit c'
         | Return (Some err, c') \<Rightarrow>
             Done (AbortWithStatusJSON 500 (ErrorBody BodyInternalServerError) c')
         | Return (None, c') \<Rightarrow> Done (JSON 200 (GroupBody (g3\<lparr>Password := []\<rparr>)) c'))"

definition UpdateGroupPassword :: HandlerFunc where
  "UpdateGroupPassword nxt c =
     (let req = Keys_Group0 c ''req'';
          g = Keys_Group0 c ''obj'';
          g1 = g\<lparr>Password := Password req\<rparr>
      in case Update c g1 of
           Exit c' \<Rightarrow> OsExit c'
         | Return (Some err, c') \<Rightarrow>
             Done (AbortWithStatusJSON 500 (ErrorBody BodyInternalServerError) c')
         | Return (None, c') \<Rightarrow> Done (JSON 200 (GroupBody (g1\<lparr>Password := []\<rparr>)) c'))"

subsection \<open>Users\<close>

definition createJWTClaim :: "Env \<Rightarrow> User \<Rightarrow> (string \<rightharpoonup> ClaimValue)" where
  "createJWTClaim e u =
     [''user_id'' \<mapsto> Int64Claim (User_ID u),
      ''username'' \<mapsto> StringClaim (Username u),
      ''iat'' \<mapsto> Int64Claim (time_Now_Unix e)]"

definition generateJWT :: "Env \<Rightarrow> (string \<rightharpoonup> ClaimValue) \<Rightarrow> string \<times> string option" where
  "generateJWT e claim =
     (case jwt_SignedString e claim of
        (jwt, Some err) \<Rightarrow> ([], Some err)
      | (jwt, None) \<Rightarrow> (jwt, None))"

definition buildResponseWithToken :: "Env \<Rightarrow> User \<Rightarrow> TokenResponse \<times> string option" where
  "buildResponseWithToken e u =
     (let claim = createJWTClaim e u in
      case generateJWT e claim of
        (jwt, Some err) \<Rightarrow> (\<lparr>Token = [], TR_User = zero_User\<rparr>, Some err)
      | (jwt, None) \<Rightarrow> (\<lparr>Token = jwt, TR_User = u\<lparr>User_Password := []\<rparr>\<rparr>, None))"

definition SignUp :: HandlerFunc where
  "SignUp nxt c =
     (let u = Keys_User0 c ''req'' in
      case ValidateForSignUp u of
        Some validationError \<Rightarrow>
          Done (AbortWithStatusJSON 400
                  (ErrorBody \<lparr>Message = VE_Message validationError,
                              FieldErrors = Errors validationError\<rparr>) c)
      | None \<Rightarrow>
          (case InitDB c of
             Exit c' \<Rightarrow> OsExit c'
           | Return (Some err) \<Rightarrow>
               Done (AbortWithStatusJSON 500 (ErrorBody BodyInternalServerError) c)
           | Return None \<Rightarrow>
               (case User_Create c u of
                  Exit c' \<Rightarrow> OsExit c'
                | Return (Some err, u1, c') \<Rightarrow>
                    if err = ''UNIQUE constraint failed: users.username'' then
                      Done (AbortWithStatusJSON 400 (BodyMessage ''User already exists.'') c')
                    else
                      Done (AbortWithStatusJSON 500 (ErrorBody BodyInternalServerError) c')
                | Return (None, u1, c') \<Rightarrow>
                    (case buildResponseWithToken (env c') u1 of
                       (resp, Some err) \<Rightarrow>
                         Done (AbortWithStatusJSON 500 (ErrorBody BodyInternalServerError) c')
                     | (resp, None) \<Rightarrow> Done (JSON 201 (TokenBody resp) c')))))"

definition SignIn :: HandlerFunc where
  "SignIn nxt c =
     (let u = Keys_User0 c ''req'';
          reqPW = User_Password u;
          bodyInvalidCredentials = BodyMessage ''username or password is invalid.''
      in case InitDB c of
           Exit c' \<Rightarrow> OsExit c'
         | Return (Some err) \<Rightarrow>
             Done (AbortWithStatusJSON 500 (ErrorBody BodyInternalServerError) c)
         | Return None \<Rightarrow>
             (case RetrieveByUsername c u of
                (Some err, u1, c') \<Rightarrow>
                  if Contains err ''record not found'' then
                    Done (AbortWithStatusJSON 401 bodyInvalidCredentials c')
                  else
                    Done (AbortWithStatusJSON 500 (ErrorBody BodyInternalServerError) c')
              | (None, u1, c') \<Rightarrow>
                  (case bcrypt_CompareHashAndPassword (env c') (User_Password u1) reqPW of
                     Some err \<Rightarrow> Done (AbortWithStatusJSON 401 bodyInvalidCredentials c')
                   | None \<Rightarrow>
                       (case buildResponseWithToken (env c') u1 of
                          (resp, Some err) \<Rightarrow>
                            Done (AbortWithStatusJSON 500
                                    (ErrorBody BodyInternalServerError) c')
                        | (resp, None) \<Rightarrow> Done (JSON 201 (TokenBody resp) c')))))"

section \<open>The routes (GetAPI)\<close>

datatype Route =
    POST_groups_id_close
  | GET_groups
  | POST_groups
  | PATCH_groups_id
  | PATCH_groups_id_password
  | GET_groups_id
  | POST_groups_id_join
  | POST_groups_id_leave
  | POST_groups_id_kick
  | POST_sign_up
  | POST_sign_in

text \<open>The handlers of each route in the order of registration; the private routes
  start with the group's \<open>AuthenticateRequests\<close>.\<close>

fun handlers :: "Route \<Rightarrow> HandlerFunc list" where
  "handlers POST_groups_id_close =
     [AuthenticateRequests, GroupObject, AllowIfUserIsOwner, AllowIfGroupIsOpen, CloseGroup]"
| "handlers GET_groups = [AuthenticateRequests, ListGroups]"
| "handlers POST_groups = [AuthenticateRequests, GroupRequestBody, CreateGroup]"
| "handlers PATCH_groups_id =
     [AuthenticateRequests, GroupObject, AllowIfUserIsOwner, AllowIfGroupIsOpen,
      GroupRequestBody, UpdateGroup]"
| "handlers PATCH_groups_id_password =
     [AuthenticateRequests, GroupObject, AllowIfUserIsOwner, AllowIfGroupIsOpen,
      GroupRequestBody, UpdateGroupPassword]"
| "handlers GET_groups_id = [AuthenticateRequests, GroupObject, RetrieveGroup]"
| "handlers POST_groups_id_join =
     [AuthenticateRequests, GroupObject, AllowIfGroupIsNotFull, AllowIfUserIsNotMember,
      AllowIfUserIsNotOwner, AllowIfGroupIsOpen, AllowIfCorrectGroupPassword, JoinGroup]"
| "handlers POST_groups_id_leave =
     [AuthenticateRequests, GroupObject, AllowIfGroupIsOpen, AllowIfUserIsMember, LeaveGroup]"
| "handlers POST_groups_id_kick =
     [AuthenticateRequests, UserRequestBody, GroupObject, AllowIfGroupIsOpen,
      AllowIfUserIsOwner, KickFromGroup]"
| "handlers POST_sign_up = [UserRequestBody, SignUp]"
| "handlers POST_sign_in = [UserRequestBody, SignIn]"

text \<open>A fresh context for a request, and the engine serving it.\<close>

definition NewContext :: "Env \<Rightarrow> Database \<Rightarrow> Request \<Rightarrow> Context" where
  "NewContext e db rq =
     \<lparr>env = e, Req = rq, Keys = Map.empty, aborted = False, Writer = None, DB = db, Log = []\<rparr>"

definition GetAPI :: "Route \<Rightarrow> Context \<Rightarrow> Result" where
  "GetAPI r c = Recovery (Next (handlers r)) c"

definition ServeHTTP :: "Env \<Rightarrow> Database \<Rightarrow> Route \<Rightarrow> Request \<Rightarrow> Result" where
  "ServeHTTP e db r rq = GetAPI r (NewContext e db rq)"

section \<open>Handlers against the data methods\<close>

text \<open>
  What a handler does with the value a data method returns to it does not depend on
  which method body produced the value. The handlers are therefore written once more
  with the data methods as a parameter: each definition below is the handler of the
  same name, with every call of a data method replaced by the call of the method
  given. With the methods of the repository they are the handlers above.
\<close>

record DataMethods =
  m_InitDB :: "Context \<Rightarrow> (string option) Call"
  m_RetrieveWithPassword :: "Context \<Rightarrow> Group \<Rightarrow> (string option \<times> Group) Call"
  m_Group_Create :: "Context \<Rightarrow> Group \<Rightarrow> (string option \<times> Group \<times> Context) Call"
  m_List :: "Context \<Rightarrow> (Group list \<times> string option) Call"
  m_Update :: "Context \<Rightarrow> Group \<Rightarrow> (string option \<times> Context) Call"
  m_RemoveMember :: "Context \<Rightarrow> Group \<Rightarrow> User \<Rightarrow> (string option \<times> Group \<times> Context) Call"
  m_User_Create :: "Context \<Rightarrow> User \<Rightarrow> (string option \<times> User \<times> Context) Call"
  m_User_Retrieve :: "Context \<Rightarrow> User \<Rightarrow> (string option \<times> User) Call"
  m_RetrieveByUsername :: "Context \<Rightarrow> User \<Rightarrow> string option \<times> User \<times> Context"

text \<open>The data methods of the repository.\<close>

definition schemas_methods :: DataMethods where
  "schemas_methods =
     \<lparr>m_InitDB = InitDB,
      m_RetrieveWithPassword = RetrieveWithPassword,
      m_Group_Create = Group_Create,
      m_List = List,
      m_Update = Update,
      m_RemoveMember = RemoveMember,
      m_User_Create = User_Create,
      m_User_Retrieve = User_Retrieve,
      m_RetrieveByUsername = RetrieveByUsername\<rparr>"

text \<open>
  Data methods that give the error of their database call back to the caller, as the
  \<open>return\<close> statement after the log call of each method reads. They serve to run
  the handlers on an error that comes back.
\<close>

definition returning_methods :: DataMethods where
  "returning_methods =
     \<lparr>m_InitDB = (\<lambda>c. case Fault (env c) OpOpen of
                          Some e \<Rightarrow> Return (Some e)
                        | None \<Rightarrow> Return None),
      m_RetrieveWithPassword = (\<lambda>c g.
         case gorm_First_Group c
                [''id'', ''title'', ''description'', ''password'',
                 ''status'', ''max_size'', ''created_at'', ''owner_id''] (ID g) of
           Inl e \<Rightarrow> Return (Some e, g)
         | Inr g' \<Rightarrow> Return (None, g')),
      m_Group_Create = (\<lambda>c g.
         case gorm_Create_Group c g of
           Inl e \<Rightarrow> Return (Some e, g, logError e c)
         | Inr (g', c') \<Rightarrow> Return (None, g', c')),
      m_List = (\<lambda>c.
         case gorm_Find_Groups c
                [''id'', ''title'', ''description'', ''status'',
                 ''max_size'', ''created_at'', ''owner_id''] of
           Inl e \<Rightarrow> Return ([], Some e)
         | Inr gs \<Rightarrow> Return (gs, None)),
      m_Update = (\<lambda>c g.
         case gorm_Save_Group c g of
           Inl e \<Rightarrow> Return (Some e, logError e c)
         | Inr c' \<Rightarrow> Return (None, c')),
      m_RemoveMember = (\<lambda>c g u.
         case gorm_Delete_Member c g u of
           Inl e \<Rightarrow> Return (Some e, g, logError e c)
         | Inr (g', c') \<Rightarrow> Return (None, g', c')),
      m_User_Create = (\<lambda>c u.
         case gorm_Create_User c u of
           Inl e \<Rightarrow> Return (Some e, u, logError e c)
         | Inr (u', c') \<Rightarrow> Return (None, u', c')),
      m_User_Retrieve = (\<lambda>c u.
         case gorm_First_User c (User_ID u) of
           Inl e \<Rightarrow> Return (Some e, u)
         | Inr u' \<Rightarrow> Return (None, u')),
      m_RetrieveByUsername = RetrieveByUsername\<rparr>"

definition GroupObject_on :: "DataMethods \<Rightarrow> HandlerFunc" where
  "GroupObject_on dm nxt c =
     (case ParseInt (Param_id (Req c)) of
        None \<Rightarrow> Done (AbortWithStatusJSON 500 (ErrorBody BodyInternalServerError) c)
      | Some gid \<Rightarrow>
          (case m_InitDB dm c of
             Exit c' \<Rightarrow> OsExit c'
           | Return (Some err) \<Rightarrow>
               Done (AbortWithStatusJSON 500 (ErrorBody BodyInternalServerError) c)
           | Return None \<Rightarrow>
               (case m_RetrieveWithPassword dm c (zero_Group\<lparr>ID := gid\<rparr>) of
                  Exit c' \<Rightarrow> OsExit c'
                | Return (Some err, g) \<Rightarrow>
                    if Contains err ''record not found'' then
                      Done (AbortWithStatusJSON 404 (ErrorBody BodyNotFound) c)
                    else
                      Done (AbortWithStatusJSON 500 (ErrorBody BodyInternalServerError) c)
                | Return (None, g) \<Rightarrow> nxt (Set_key ''obj'' (GroupVal g) c))))"

definition CloseGroup_on :: "DataMethods \<Rightarrow> HandlerFunc" where
  "CloseGroup_on dm nxt c =
     (let g = Keys_Group0 c ''obj'';
          g1 = g\<lparr>Status := - 100\<rparr>
      in case m_Update dm c g1 of
           Exit c' \<Rightarrow> OsExit c'
         | Return (Some err, c') \<Rightarrow>
             Done (AbortWithStatusJSON 500 (ErrorBody BodyInternalServerError) c')
         | Return (None, c') \<Rightarrow> Done (JSON 200 (GroupBody (g1\<lparr>Password := []\<rparr>)) c'))"

definition CreateGroup_on :: "DataMethods \<Rightarrow> HandlerFunc" where
  "CreateGroup_on dm nxt c =
     (let req = Keys_Group0 c ''req'' in
      case ValidateForCreate req of
        Some validationError \<Rightarrow>
          Done (AbortWithStatusJSON 400
                  (ErrorBody \<lparr>Message = VE_Message validationError,
                              FieldErrors = Errors validationError\<rparr>) c)
      | None \<Rightarrow>
          (case m_InitDB dm c of
             Exit c' \<Rightarrow> OsExit c'
           | Return (Some err) \<Rightarrow>
               Done (AbortWithStatusJSON 500 (ErrorBody BodyInternalServerError) c)
           | Return None \<Rightarrow>
               (let req1 = req\<lparr>OwnerID := GetInt64 c ''user_id''\<rparr> in
                case m_Group_Create dm c req1 of
                  Exit c' \<Rightarrow> OsExit c'
                | Return (Some err, req2, c') \<Rightarrow>
                    Done (AbortWithStatusJSON 500 (ErrorBody BodyInternalServerError) c')
                | Return (None, req2, c') \<Rightarrow>
                    Done (JSON 201 (GroupBody (req2\<lparr>Password := []\<rparr>)) c'))))"

definition JoinGroup_on :: "DataMethods \<Rightarrow> HandlerFunc" where
  "JoinGroup_on dm nxt c =
     (let g = Keys_Group0 c ''obj'';
          g1 = g\<lparr>Members := Members g @ [zero_User\<lparr>User_ID := GetInt64 c ''user_id''\<rparr>]\<rparr>
      in case m_Update dm c g1 of
           Exit c' \<Rightarrow> OsExit c'
         | Return (Some err, c') \<Rightarrow>
             Done (AbortWithStatusJSON 500 (ErrorBody BodyInternalServerError) c')
         | Return (None, c') \<Rightarrow> Done (JSON 200 (GroupBody (g1\<lparr>Password := []\<rparr>)) c'))"

definition KickFromGroup_on :: "DataMethods \<Rightarrow> HandlerFunc" where
  "KickFromGroup_on dm nxt c =
     (let req = Keys_User0 c ''req'';
          g = Keys_Group0 c ''obj''
      in case m_InitDB dm c of
           Exit c' \<Rightarrow> OsExit c'
         | Return (Some err) \<Rightarrow>
             Done (AbortWithStatusJSON 500 (ErrorBody BodyInternalServerError) c)
         | Return None \<Rightarrow>
             (case m_User_Retrieve dm c req of
                Exit c' \<Rightarrow> OsExit c'
              | Return (Some err, req1) \<Rightarrow>
                  if Contains err ''record not found'' then
                    Done (AbortWithStatusJSON 404 (ErrorBody BodyNotFound) c)
                  else
                    Done (AbortWithStatusJSON 500 (ErrorBody BodyInternalServerError) c)
              | Return (None, req1) \<Rightarrow>
                  if \<not> IsMember g (User_ID req1) then
                    Done (AbortWithStatusJSON 400
                            (BodyMessage ''The user to kick is not a member'') c)
                  else
                    (case m_RemoveMember dm c g req1 of
                       Exit c' \<Rightarrow> OsExit c'
                     | Return (Some err, g1, c') \<Rightarrow>
                         Done (AbortWithStatusJSON 500 (ErrorBody BodyInternalServerError) c')
                     | Return (None, g1, c') \<Rightarrow>
                         Done (JSON 200 (GroupBody (g1\<lparr>Password := []\<rparr>)) c'))))"

definition LeaveGroup_on :: "DataMethods \<Rightarrow> HandlerFunc" where
  "LeaveGroup_on dm nxt c =
     (let g = Keys_Group0 c ''obj'';
          u = zero_User\<lparr>User_ID := GetInt64 c ''user_id''\<rparr>
      in case m_InitDB dm c of
           Exit c' \<Rightarrow> OsExit c'
         | Return (Some err) \<Rightarrow>
             Done (AbortWithStatusJSON 500 (ErrorBody BodyInternalServerError) c)
         | Return None \<Rightarrow>
             (case m_User_Retrieve dm c u of
                Exit c' \<Rightarrow> OsExit c'
              | Return (Some err, u1) \<Rightarrow>
                  Done (AbortWithStatusJSON 500 (ErrorBody BodyInternalServerError) c)
              | Return (None, u1) \<Rightarrow>
                  (case m_RemoveMember dm c g u1 of
                     Exit c' \<Rightarrow> OsExit c'
                   | Return (Some err, g1, c') \<Rightarrow>
                       Done (AbortWithStatusJSON 500 (ErrorBody BodyInternalServerError) c')
                   | Return (None, g1, c') \<Rightarrow>
                       Done (JSON 200 (GroupBody (g1\<lparr>Password := []\<rparr>)) c'))))"

definition ListGroups_on :: "DataMethods \<Rightarrow> HandlerFunc" where
  "ListGroups_on dm nxt c =
     (case m_InitDB dm c of
        Exit c' \<Rightarrow> OsExit c'
      | Return (Some err) \<Rightarrow>
          Done (AbortWithStatusJSON 500 (ErrorBody BodyInternalServerError) c)
      | Return None \<Rightarrow>
          (case m_List dm c of
             Exit c' \<Rightarrow> OsExit c'
           | Return (gs, Some err) \<Rightarrow>
               Done (AbortWithStatusJSON 500 (ErrorBody BodyInternalServerError) c)
           | Return (gs, None) \<Rightarrow> Done (JSON 200 (GroupListBody gs) c)))"

definition UpdateGroup_on :: "DataMethods \<Rightarrow> HandlerFunc" where
  "UpdateGroup_on dm nxt c =
     (let req = Keys_Group0 c ''req'';
          g = Keys_Group0 c ''obj'';
          g1 = (if Title req \<noteq> [] then g\<lparr>Title := Title req\<rparr> else g);
          g2 = (if Description req \<noteq> [] then g1\<lparr>Description := Description req\<rparr> else g1);
          g3 = (if MaxSize req \<noteq> 0 then g2\<lparr>MaxSize := MaxSize req\<rparr> else g2)
      in case m_Update dm c g3 of
           Exit c' \<Rightarrow> OsExit c'
         | Return (Some err, c') \<Rightarrow>
             Done (AbortWithStatusJSON 500 (ErrorBody BodyInternalServerError) c')
         | Return (None, c') \<Rightarrow> Done (JSON 200 (GroupBody (g3\<lparr>Password := []\<rparr>)) c'))"

definition UpdateGroupPassword_on :: "DataMethods \<Rightarrow> HandlerFunc" where
  "UpdateGroupPassword_on dm nxt c =
     (let req = Keys_Group0 c ''req'';
          g = Keys_Group0 c ''obj'';
          g1 = g\<lparr>Password := Password req\<rparr>
      in case m_Update dm c g1 of
           Exit c' \<Rightarrow> OsExit c'
         | Return (Some err, c') \<Rightarrow>
             Done (AbortWithStatusJSON 500 (ErrorBody BodyInternalServerError) c')
         | Return (None, c') \<Rightarrow> Done (JSON 200 (GroupBody (g1\<lparr>Password := []\<rparr>)) c'))"

definition SignUp_on :: "DataMethods \<Rightarrow> HandlerFunc" where
  "SignUp_on dm nxt c =
     (let u = Keys_User0 c ''req'' in
      case ValidateForSignUp u of
        Some validationError \<Rightarrow>
          Done (AbortWithStatusJSON 400
                  (ErrorBody \<lparr>Message = VE_Message validationError,
                              FieldErrors = Errors validationError\<rparr>) c)
      | None \<Rightarrow>
          (case m_InitDB dm c of
             Exit c' \<Rightarrow> OsExit c'
           | Return (Some err) \<Rightarrow>
               Done (AbortWithStatusJSON 500 (ErrorBody BodyInternalServerError) c)
           | Return None \<Rightarrow>
               (case m_User_Create dm c u of
                  Exit c' \<Rightarrow> OsExit c'
                | Return (Some err, u1, c') \<Rightarrow>
                    if err = ''UNIQUE constraint failed: users.username'' then
                      Done (AbortWithStatusJSON 400 (BodyMessage ''User already exists.'') c')
                    else
                      Done (AbortWithStatusJSON 500 (ErrorBody BodyInternalServerError) c')
                | Return (None, u1, c') \<Rightarrow>
                    (case buildResponseWithToken (env c') u1 of
                       (resp, Some err) \<Rightarrow>
                         Done (AbortWithStatusJSON 500 (ErrorBody BodyInternalServerError) c')
                     | (resp, None) \<Rightarrow> Done (JSON 201 (TokenBody resp) c')))))"

definition SignIn_on :: "DataMethods \<Rightarrow> HandlerFunc" where
  "SignIn_on dm nxt c =
     (let u = Keys_User0 c ''req'';
          reqPW = User_Password u;
          bodyInvalidCredentials = BodyMessage ''username or password is invalid.''
      in case m_InitDB dm c of
           Exit c' \<Rightarrow> OsExit c'
         | Return (Some err) \<Rightarrow>
             Done (AbortWithStatusJSON 500 (ErrorBody BodyInternalServerError) c)
         | Return None \<Rightarrow>
             (case m_RetrieveByUsername dm c u of
                (Some err, u1, c') \<Rightarrow>
                  if Contains err ''record not found'' then
                    Done (AbortWithStatusJSON 401 bodyInvalidCredentials c')
                  else
                    Done (AbortWithStatusJSON 500 (ErrorBody BodyInternalServerError) c')
              | (None, u1, c') \<Rightarrow>
                  (case bcrypt_CompareHashAndPassword (env c') (User_Password u1) reqPW of
                     Some err \<Rightarrow> Done (AbortWithStatusJSON 401 bodyInvalidCredentials c')
                   | None \<Rightarrow>
                       (case buildResponseWithToken (env c') u1 of
                          (resp, Some err) \<Rightarrow>
                            Done (AbortWithStatusJSON 500
                                    (ErrorBody BodyInternalServerError) c')
                        | (resp, None) \<Rightarrow> Done (JSON 201 (TokenBody resp) c')))))"

text \<open>The answers a handler gives to an error: the 500 and the 404 of the repository,
  and a client error (a status from 400 to 499) with a message.\<close>

definition InternalServerError :: "Context \<Rightarrow> Result" where
  "InternalServerError c = Done (AbortWithStatusJSON 500 (ErrorBody BodyInternalServerError) c)"

definition NotFound :: "Context \<Rightarrow> Result" where
  "NotFound c = Done (AbortWithStatusJSON 404 (ErrorBody BodyNotFound) c)"

definition client_error :: "Result \<Rightarrow> string \<Rightarrow> Context \<Rightarrow> bool" where
  "client_error res msg c =
     (\<exists>code. 400 \<le> code \<and> code < 500
        \<and> res = Done (AbortWithStatusJSON code (BodyMessage msg) c))"

section \<open>Runs of the server\<close>

text \<open>The database a handled request leaves behind, however the handling ended, and
  the database after a sequence of requests served one after the other, each in the
  environment it meets.\<close>

definition db_of :: "Result \<Rightarrow> Database" where
  "db_of r = (case r of Done c \<Rightarrow> DB c | Panic msg c \<Rightarrow> DB c | OsExit c \<Rightarrow> DB c)"

fun serve_all :: "Database \<Rightarrow> (Env \<times> Route \<times> Request) list \<Rightarrow> Database" where
  "serve_all db [] = db"
| "serve_all db ((e, r, rq) # rest) = serve_all (db_of (ServeHTTP e db r rq)) rest"

text \<open>The status and body of the response, when one was written.\<close>

definition response_of :: "Result \<Rightarrow> (nat \<times> JSONBody) option" where
  "response_of r = (case r of Done c \<Rightarrow> Writer c | Panic msg c \<Rightarrow> None | OsExit c \<Rightarrow> None)"

subsection \<open>A concrete environment\<close>

text \<open>
  An environment for running the model on concrete requests: no database call fails
  by itself, the token \<open>n\<close> (a decimal number) is a valid token of user \<open>n\<close> and every
  other token is malformed, signing gives \<open>''jwt''\<close>, and the hash of a password is
  the password after \<open>#\<close>.
\<close>

definition example_env :: Env where
  "example_env =
     \<lparr>Fault = (\<lambda>op. None),
      jwt_Parse = (\<lambda>t. case ParseInt t of
          Some n \<Rightarrow>
            (Some \<lparr>Claims = [''user_id'' \<mapsto> Float64Claim (sint n)], Valid = True\<rparr>, None)
        | None \<Rightarrow>
            (Some \<lparr>Claims = Map.empty, Valid = False\<rparr>, Some ''token is malformed'')),
      jwt_SignedString = (\<lambda>claim. (''jwt'', None)),
      bcrypt_GenerateFromPassword = (\<lambda>pw. (CHR ''#'' # pw, None)),
      bcrypt_CompareHashAndPassword =
        (\<lambda>h pw. if h = CHR ''#'' # pw then None else Some ''hash mismatch''),
      time_Now_Unix = 0\<rparr>"

definition empty_db :: Database where
  "empty_db = \<lparr>groups = [], users = []\<rparr>"

text \<open>A request without a body, one whose JSON body binds to the given group, and one
  whose body binds to the given user (a route binds its body to one of the two types).\<close>

definition request :: "string \<Rightarrow> string \<Rightarrow> Request" where
  "request auth gid =
     \<lparr>Header_Authorization = auth, Param_id = gid,
      Bind_Group = Inl ''EOF'', Bind_User = Inl ''EOF''\<rparr>"

definition group_request :: "string \<Rightarrow> string \<Rightarrow> Group \<Rightarrow> Request" where
  "group_request auth gid body =
     \<lparr>Header_Authorization = auth, Param_id = gid,
      Bind_Group = Inr body, Bind_User = Inr zero_User\<rparr>"

definition user_request :: "string \<Rightarrow> string \<Rightarrow> User \<Rightarrow> Request" where
  "user_request auth gid body =
     \<lparr>Header_Authorization = auth, Param_id = gid,
      Bind_Group = Inr zero_Group, Bind_User = Inr body\<rparr>"

subsection \<open>Concrete groups and requests\<close>

definition member :: "int64 \<Rightarrow> User" where
  "member uid = \<lparr>User_ID = uid, Username = [], User_Password = []\<rparr>"

text \<open>The body of a valid create request.\<close>

definition new_group :: Group where
  "new_group = zero_Group\<lparr>Title := ''raid'', Description := ''friday'', MaxSize := 5\<rparr>"

text \<open>A stored group with room for one member besides its owner, and three members.\<close>

definition overfull_group :: Group where
  "overfull_group =
     \<lparr>ID = 1, Title = ''raid'', Description = ''friday'', Status = 0, Password = [],
      MaxSize = 2, OwnerID = 1, Members = [member 2, member 3, member 4]\<rparr>"

text \<open>A stored group that is protected by a password.\<close>

definition private_group :: Group where
  "private_group =
     \<lparr>ID = 1, Title = ''raid'', Description = ''friday'', Status = 0, Password = ''secret'',
      MaxSize = 5, OwnerID = 1, Members = []\<rparr>"

text \<open>A stored group of capacity 5 with four members, and the database holding it.\<close>

definition full_group :: Group where
  "full_group =
     \<lparr>ID = 1, Title = ''raid'', Description = ''friday'', Status = 0, Password = [],
      MaxSize = 5, OwnerID = 1, Members = [member 2, member 3, member 4, member 5]\<rparr>"

definition full_db :: Database where
  "full_db = \<lparr>groups = [full_group], users = []\<rparr>"

text \<open>A closed group, and the database holding it.\<close>

definition closed_group :: Group where
  "closed_group =
     \<lparr>ID = 1, Title = ''raid'', Description = ''friday'', Status = - 100, Password = [],
      MaxSize = 5, OwnerID = 1, Members = [member 2]\<rparr>"

definition closed_db :: Database where
  "closed_db = \<lparr>groups = [closed_group], users = [member 2, member 3]\<rparr>"

definition private_db :: Database where
  "private_db = \<lparr>groups = [private_group], users = []\<rparr>"

text \<open>A user who has not signed up, and an environment in which the lookup of a user
  by name fails in the driver.\<close>

definition bob :: User where
  "bob = \<lparr>User_ID = 0, Username = ''bob'', User_Password = ''password1''\<rparr>"

definition failing_lookup_env :: Env where
  "failing_lookup_env =
     example_env\<lparr>Fault := (\<lambda>op. if op = OpUserFirstByUsername then Some ''disk I/O error''
                                 else None)\<rparr>"

text \<open>A database in which the user \<open>bob\<close> has signed up.\<close>

definition bob_db :: Database where
  "bob_db =
     \<lparr>groups = [],
      users = [\<lparr>User_ID = 1, Username = ''bob'', User_Password = ''#password1''\<rparr>]\<rparr>"

section \<open>Notions the properties are stated with\<close>

text \<open>A continuation behaves like \<open>c.Next\<close> when it does nothing in an aborted context.\<close>

definition abort_respecting :: "(Context \<Rightarrow> Result) \<Rightarrow> bool" where
  "abort_respecting nxt = (\<forall>c. aborted c \<longrightarrow> nxt c = Done c)"

text \<open>What gin does after a handler has returned its result: the rest of the chain
  runs unless the context is aborted or the request has ended otherwise.\<close>

definition then_next :: "Result \<Rightarrow> (Context \<Rightarrow> Result) \<Rightarrow> Result" where
  "then_next r nxt =
     (case r of
        Done c \<Rightarrow> if aborted c then Done c else nxt c
      | Panic msg c \<Rightarrow> Panic msg c
      | OsExit c \<Rightarrow> OsExit c)"

definition error_status :: "nat \<Rightarrow> bool" where
  "error_status code =
     (code = 400 \<or> code = 401 \<or> code = 403 \<or> code = 404 \<or> code = 500)"

text \<open>
  A handler is check-like when running it with \<open>c.Next\<close> is running it alone and then
  the rest of the chain, when it leaves the database as it is, and when a context it
  aborts carries an error status.
\<close>

definition check_like :: "HandlerFunc \<Rightarrow> bool" where
  "check_like m =
     ((\<forall>nxt c. abort_respecting nxt \<longrightarrow> m nxt c = then_next (m Done c) nxt) \<and>
      (\<forall>c c'. m Done c = Done c' \<longrightarrow>
          DB c' = DB c \<and>
          (\<not> aborted c \<and> aborted c' \<longrightarrow>
             (\<exists>code body. Writer c' = Some (code, body) \<and> error_status code))))"

text \<open>A response body shows no password: neither of a group nor of a user.\<close>

definition password_free :: "JSONBody \<Rightarrow> bool" where
  "password_free b =
     (case b of
        GroupBody g \<Rightarrow> Password g = []
      | GroupListBody gs \<Rightarrow> list_all (\<lambda>g. Password g = []) gs
      | TokenBody t \<Rightarrow> User_Password (TR_User t) = []
      | ErrorBody e \<Rightarrow> True
      | EmptyBody \<Rightarrow> True)"

section \<open>Properties\<close>

lemmas eval_defs =
  example_env_def request_def group_request_def user_request_def empty_db_def db_of_def
  response_of_def ServeHTTP_def GetAPI_def Recovery_def NewContext_def
  AuthenticateRequests_def parseJwt_def ParseInt_def digit_val_def Set_key_def
  GroupRequestBody_def UserRequestBody_def GroupObject_def
  Keys_Group0_def Keys_Group_def Keys_User0_def Keys_User_def GetInt64_def
  ValidateForCreate_def ValidateForSignUp_def zero_Group_def zero_User_def member_def
  InitDB_def CreateConnection_def Migrate_def logError_def
  Group_Create_def gorm_Create_Group_def next_group_id_def find_group_def find_user_def
  RetrieveWithPassword_def retrieveGroup_def gorm_First_Group_def SelectFields_def
  preloadUser_def Update_def gorm_Save_Group_def save_row_def
  RemoveMember_def gorm_Delete_Member_def delete_member_def
  User_Retrieve_def gorm_First_User_def
  JSON_def BodyMessage_def AbortWithStatusJSON_def
  BodyInternalServerError_def BodyNotFound_def
  AllowIfGroupIsNotFull_def AllowIfUserIsNotMember_def AllowIfUserIsNotOwner_def
  AllowIfUserIsOwner_def AllowIfUserIsMember_def AllowIfCorrectGroupPassword_def
  AllowIfGroupIsOpen_def IsFull_def IsMember_def memberIndex_def IsOpen_def IsOwner_def
  IsPrivate_def ValidatePassword_def
  CreateGroup_def JoinGroup_def UpdateGroup_def CloseGroup_def UpdateGroupPassword_def
  RetrieveGroup_def LeaveGroup_def KickFromGroup_def Let_def

subsection \<open>Handler chains\<close>

lemmas mw_defs = AuthenticateRequests_def GroupObject_def GroupRequestBody_def UserRequestBody_def
  AllowIfGroupIsNotFull_def AllowIfUserIsNotMember_def AllowIfUserIsNotOwner_def
  AllowIfUserIsOwner_def AllowIfUserIsMember_def AllowIfCorrectGroupPassword_def
  AllowIfGroupIsOpen_def InitDB_def CreateConnection_def Migrate_def RetrieveWithPassword_def retrieveGroup_def
  AbortWithStatusJSON_def Set_key_def JSON_def

lemmas all_splits = option.splits sum.splits list.splits prod.splits Call.splits Result.splits if_splits ClaimValue.splits KeyValue.splits

lemma abort_respecting_Next: "abort_respecting (Next hs)"
  by (cases hs) (simp_all add: abort_respecting_def)

lemma abort_respecting_Done: "abort_respecting Done"
  by (simp add: abort_respecting_def)

lemma check_like_AuthenticateRequests: "check_like AuthenticateRequests"
  unfolding check_like_def abort_respecting_def then_next_def error_status_def
  by (auto simp: mw_defs Let_def split: all_splits)

lemma check_like_GroupObject: "check_like GroupObject"
  unfolding check_like_def abort_respecting_def then_next_def error_status_def
  by (auto simp: mw_defs Let_def split: all_splits)

lemma check_like_GroupRequestBody: "check_like GroupRequestBody"
  unfolding check_like_def abort_respecting_def then_next_def error_status_def
  by (auto simp: mw_defs Let_def split: all_splits)

lemma check_like_UserRequestBody: "check_like UserRequestBody"
  unfolding check_like_def abort_respecting_def then_next_def error_status_def
  by (auto simp: mw_defs Let_def split: all_splits)

lemma check_like_AllowIfGroupIsNotFull: "check_like AllowIfGroupIsNotFull"
  unfolding check_like_def abort_respecting_def then_next_def error_status_def
  by (auto simp: mw_defs Let_def split: all_splits)

lemma check_like_AllowIfUserIsNotMember: "check_like AllowIfUserIsNotMember"
  unfolding check_like_def abort_respecting_def then_next_def error_status_def
  by (auto simp: mw_defs Let_def split: all_splits)

lemma check_like_AllowIfUserIsNotOwner: "check_like AllowIfUserIsNotOwner"
  unfolding check_like_def abort_respecting_def then_next_def error_status_def
  by (auto simp: mw_defs Let_def split: all_splits)

lemma check_like_AllowIfUserIsOwner: "check_like AllowIfUserIsOwner"
  unfolding check_like_def abort_respecting_def then_next_def error_status_def
  by (auto simp: mw_defs Let_def split: all_splits)

lemma check_like_AllowIfUserIsMember: "check_like AllowIfUserIsMember"
  unfolding check_like_def abort_respecting_def then_next_def error_status_def
  by (auto simp: mw_defs Let_def split: all_splits)

lemma check_like_AllowIfCorrectGroupPassword: "check_like AllowIfCorrectGroupPassword"
  unfolding check_like_def abort_respecting_def then_next_def error_status_def
  by (auto simp: mw_defs Let_def split: all_splits)

lemma check_like_AllowIfGroupIsOpen: "check_like AllowIfGroupIsOpen"
  unfolding check_like_def abort_respecting_def then_next_def error_status_def
  by (auto simp: mw_defs Let_def split: all_splits)

lemmas check_like_intros = check_like_AuthenticateRequests check_like_GroupObject
  check_like_GroupRequestBody check_like_UserRequestBody check_like_AllowIfGroupIsNotFull
  check_like_AllowIfUserIsNotMember check_like_AllowIfUserIsNotOwner check_like_AllowIfUserIsOwner
  check_like_AllowIfUserIsMember check_like_AllowIfCorrectGroupPassword check_like_AllowIfGroupIsOpen

lemma check_like_before_endpoint:
  "m \<in> set (butlast (handlers r)) \<Longrightarrow> check_like m"
  by (cases r) (auto simp: check_like_intros)

lemma then_next_Next_append:
  assumes "\<forall>m \<in> set pre. check_like m"
  shows "Next (pre @ rest) c = then_next (Next pre c) (Next rest)"
  using assms
proof (induction pre arbitrary: c)
  case Nil
  show ?case
    using abort_respecting_Next [of rest]
    by (simp add: then_next_def abort_respecting_def)
next
  case (Cons m pre)
  have m: "check_like m" and pre: "\<forall>m \<in> set pre. check_like m"
    using Cons.prems by simp_all
  have IH: "\<And>c. Next (pre @ rest) c = then_next (Next pre c) (Next rest)"
    using Cons.IH [OF pre] .
  show ?case
  proof (cases "aborted c")
    case True
    then show ?thesis by (simp add: then_next_def)
  next
    case False
    have 1: "m (Next (pre @ rest)) c = then_next (m Done c) (Next (pre @ rest))"
      using m abort_respecting_Next [of "pre @ rest"] by (simp add: check_like_def)
    have 2: "m (Next pre) c = then_next (m Done c) (Next pre)"
      using m abort_respecting_Next [of pre] by (simp add: check_like_def)
    show ?thesis
      using False 1 2 IH
      by (cases "m Done c") (simp_all add: then_next_def)
  qed
qed

lemma Next_checks_keep_DB:
  assumes "\<forall>m \<in> set pre. check_like m" and "Next pre c = Done c1"
  shows "DB c1 = DB c"
  using assms
proof (induction pre arbitrary: c)
  case Nil
  then show ?case by simp
next
  case (Cons m pre)
  have m: "check_like m" and pre: "\<forall>m \<in> set pre. check_like m"
    using Cons.prems by simp_all
  show ?case
  proof (cases "aborted c")
    case True
    with Cons.prems show ?thesis by simp
  next
    case False
    have 2: "m (Next pre) c = then_next (m Done c) (Next pre)"
      using m abort_respecting_Next [of pre] by (simp add: check_like_def)
    with False Cons.prems have 3: "then_next (m Done c) (Next pre) = Done c1" by simp
    then obtain c' where c': "m Done c = Done c'"
      by (cases "m Done c") (simp_all add: then_next_def)
    have db: "DB c' = DB c" using m c' by (simp add: check_like_def)
    show ?thesis
    proof (cases "aborted c'")
      case True
      with 3 c' have "c1 = c'" by (simp add: then_next_def)
      with db show ?thesis by simp
    next
      case False
      with 3 c' have "Next pre c' = Done c1" by (simp add: then_next_def)
      from Cons.IH [OF pre this] db show ?thesis by simp
    qed
  qed
qed

subsection \<open>Capacity\<close>

text \<open>
  C1. The membership of a reachable group does not stay within its capacity minus one.
  User 1 creates a group of capacity 5, users 2, 3 and 4 join, the owner lowers
  \<open>max_size\<close> to 2 (\<open>UpdateGroup\<close> stores any non-zero value), and user 5 is then still
  allowed to join: the stored group has capacity 2 and four members.
\<close>

theorem join_after_update_exceeds_capacity:
  "serve_all empty_db
     [(example_env, POST_groups, group_request ''Bearer 1'' [] new_group),
      (example_env, POST_groups_id_join, request ''Bearer 2'' ''1''),
      (example_env, POST_groups_id_join, request ''Bearer 3'' ''1''),
      (example_env, POST_groups_id_join, request ''Bearer 4'' ''1''),
      (example_env, PATCH_groups_id,
         group_request ''Bearer 1'' ''1'' (zero_Group\<lparr>MaxSize := 2\<rparr>)),
      (example_env, POST_groups_id_join, request ''Bearer 5'' ''1'')]
   = \<lparr>groups =
        [\<lparr>ID = 1, Title = ''raid'', Description = ''friday'', Status = 0, Password = [],
          MaxSize = 2, OwnerID = 1,
          Members = [member 2, member 3, member 4, member 5]\<rparr>],
      users = []\<rparr>"
  by (simp add: eval_defs new_group_def)

text \<open>What the check does for every group: it rejects exactly when the two \<open>int16\<close>
  values are equal.\<close>

lemma AllowIfGroupIsNotFull_rejects_iff:
  "Keys_Group c ''obj'' = Some g \<Longrightarrow> \<not> aborted c \<Longrightarrow>
   AllowIfGroupIsNotFull Done c =
     (if MaxSize g - 1 = word_of_nat (length (Members g))
      then Done (AbortWithStatusJSON 400 (BodyMessage ''Group is full'') c)
      else Done c)"
  by (simp add: AllowIfGroupIsNotFull_def IsFull_def)

text \<open>
  C6. The is-not-full check does not reject every group whose membership has reached
  its capacity minus one: \<open>IsFull\<close> compares for equality, so the group with capacity
  2 and three members is not full, and the check hands the request of user 5 on
  unchanged.
\<close>

theorem overfull_group_is_admitted:
  "length (Members overfull_group) = 3 \<and> sint (MaxSize overfull_group) - 1 = 1
   \<and> IsFull overfull_group = False
   \<and> AllowIfGroupIsNotFull Done
        (Set_key ''obj'' (GroupVal overfull_group)
           (NewContext example_env empty_db (request ''Bearer 5'' ''1'')))
      = Done (Set_key ''obj'' (GroupVal overfull_group)
           (NewContext example_env empty_db (request ''Bearer 5'' ''1'')))"
  by (simp add: overfull_group_def IsFull_def AllowIfGroupIsNotFull_def Keys_Group_def
        Set_key_def NewContext_def)

subsection \<open>Status\<close>

text \<open>
  C5. The status of a created group is the one the request body carries:
  \<open>CreateGroup\<close> validates title, description and \<open>max_size\<close> and overwrites the owner,
  and stores the bound struct otherwise. A body with \<open>"status": 7\<close> leaves a stored
  group whose status is neither open (0) nor closed (-100).
\<close>

theorem create_stores_supplied_status:
  "serve_all empty_db
     [(example_env, POST_groups, group_request ''Bearer 1'' [] (new_group\<lparr>Status := 7\<rparr>))]
   = \<lparr>groups =
        [\<lparr>ID = 1, Title = ''raid'', Description = ''friday'', Status = 7, Password = [],
          MaxSize = 5, OwnerID = 1, Members = []\<rparr>],
      users = []\<rparr>"
  by (simp add: eval_defs new_group_def)

subsection \<open>Authentication\<close>

text \<open>
  C8. \<open>AuthenticateRequests\<close> is not total: for the header \<open>abc\<close>, which is not empty
  and has no space, \<open>strings.Split\<close> gives one part and the index 1 is out of range,
  so the middleware panics, in whatever context and with whatever handlers after it.
\<close>

theorem AuthenticateRequests_panics_without_space:
  "Split ''abc'' CHR '' '' = [''abc'']
   \<and> AuthenticateRequests nxt (c\<lparr>Req := (Req c)\<lparr>Header_Authorization := ''abc''\<rparr>\<rparr>)
     = Panic ''index out of range [1] with length 1''
         (c\<lparr>Req := (Req c)\<lparr>Header_Authorization := ''abc''\<rparr>\<rparr>)"
  by (simp add: AuthenticateRequests_def)

subsection \<open>Order of the checks\<close>

text \<open>
  C2. The handlers of a route run in the order of registration, and the first one that
  aborts ends the request. Let \<open>h\<close> be a handler of route \<open>r\<close> other than its
  endpoint, let the handlers before it have run from \<open>c\<close> and passed, leaving \<open>c1\<close>,
  and let \<open>h\<close> abort in \<open>c1\<close>, leaving \<open>c2\<close>. Then the whole chain ends in \<open>c2\<close>:
  no later handler has touched the context, the response is the error \<open>h\<close> wrote, and
  the database is the one the request found. This holds for
  \<open>AllowIfGroupIsNotFull\<close> too, whose \<open>c.Next()\<close> after the abort runs nothing.
\<close>

theorem first_failing_check_ends_the_request:
  assumes route: "handlers r = pre @ h # post" and more: "post \<noteq> []"
    and before: "Next pre c = Done c1" and passed: "\<not> aborted c1"
    and fails: "h Done c1 = Done c2" and ab: "aborted c2"
  shows "Next (handlers r) c = Done c2 \<and> DB c2 = DB c \<and>
         (\<exists>code body. Writer c2 = Some (code, body) \<and>
            (code = 400 \<or> code = 401 \<or> code = 403 \<or> code = 404 \<or> code = 500))"
proof -
  have bl: "butlast (handlers r) = pre @ h # butlast post"
    using route more by (simp add: butlast_append)
  have pre: "\<forall>m \<in> set pre. check_like m"
    using check_like_before_endpoint [of _ r] bl by simp
  have h: "check_like h"
    using check_like_before_endpoint [of h r] bl by simp
  have "Next (handlers r) c = then_next (Next pre c) (Next (h # post))"
    using route then_next_Next_append [OF pre] by simp
  also have "\<dots> = h (Next post) c1"
    using before passed by (simp add: then_next_def)
  also have "\<dots> = then_next (h Done c1) (Next post)"
    using h abort_respecting_Next [of post] by (simp add: check_like_def)
  also have "\<dots> = Done c2"
    using fails ab by (simp add: then_next_def)
  finally have 1: "Next (handlers r) c = Done c2" .
  have 2: "DB c1 = DB c"
    using Next_checks_keep_DB [OF pre before] .
  have 3: "DB c2 = DB c1 \<and> (\<exists>code body. Writer c2 = Some (code, body) \<and> error_status code)"
    using h fails passed ab by (simp add: check_like_def)
  show ?thesis using 1 2 3 by (simp add: error_status_def)
qed


theorem first_failing_check_witness:
  "handlers POST_groups_id_join =
     [AuthenticateRequests, GroupObject] @ AllowIfGroupIsNotFull #
     [AllowIfUserIsNotMember, AllowIfUserIsNotOwner, AllowIfGroupIsOpen,
      AllowIfCorrectGroupPassword, JoinGroup]
   \<and> Next (handlers POST_groups_id_join)
        (NewContext example_env full_db (request ''Bearer 6'' ''1''))
     = Done (AbortWithStatusJSON 400 (BodyMessage ''Group is full'')
         (Set_key ''obj'' (GroupVal full_group)
           (Set_key ''user_id'' (Int64Val 6)
             (NewContext example_env full_db (request ''Bearer 6'' ''1'')))))"
proof -
  let ?c = "NewContext example_env full_db (request ''Bearer 6'' ''1'')"
  let ?c1 = "Set_key ''obj'' (GroupVal full_group) (Set_key ''user_id'' (Int64Val 6) ?c)"
  let ?c2 = "AbortWithStatusJSON 400 (BodyMessage ''Group is full'') ?c1"
  have route: "handlers POST_groups_id_join =
     [AuthenticateRequests, GroupObject] @ AllowIfGroupIsNotFull #
     [AllowIfUserIsNotMember, AllowIfUserIsNotOwner, AllowIfGroupIsOpen,
      AllowIfCorrectGroupPassword, JoinGroup]"
    by simp
  have more: "[AllowIfUserIsNotMember, AllowIfUserIsNotOwner, AllowIfGroupIsOpen,
      AllowIfCorrectGroupPassword, JoinGroup] \<noteq> []"
    by simp
  have before: "Next [AuthenticateRequests, GroupObject] ?c = Done ?c1"
    by (simp add: eval_defs full_db_def full_group_def)
  have passed: "\<not> aborted ?c1"
    by (simp add: Set_key_def NewContext_def)
  have fails: "AllowIfGroupIsNotFull Done ?c1 = Done ?c2"
    by (simp add: AllowIfGroupIsNotFull_def Keys_Group_def Set_key_def IsFull_def
          full_group_def)
  have ab: "aborted ?c2"
    by (simp add: AbortWithStatusJSON_def)
  from first_failing_check_ends_the_request [OF route more before passed fails ab] route
  show ?thesis by simp
qed


subsection \<open>Tables\<close>

lemmas ep_defs = CloseGroup_def CreateGroup_def JoinGroup_def KickFromGroup_def LeaveGroup_def
  ListGroups_def RetrieveGroup_def UpdateGroup_def UpdateGroupPassword_def SignUp_def SignIn_def
  buildResponseWithToken_def generateJWT_def
  Update_def Group_Create_def List_def RemoveMember_def User_Create_def User_Retrieve_def RetrieveByUsername_def

lemmas gorm_defs = gorm_First_Group_def gorm_Find_Groups_def gorm_Create_Group_def gorm_Save_Group_def
  gorm_Delete_Member_def gorm_Create_User_def gorm_First_User_def gorm_First_User_by_Username_def

lemma find_group_ID: "find_group db gid = Some g \<Longrightarrow> ID g = gid"
  by (auto simp: find_group_def find_Some_iff)

lemma find_append_Some:
  "find P rows = Some g \<Longrightarrow> find P (rows @ ys) = Some g"
  by (induction rows) (auto split: if_splits)

lemma find_append_None:
  "find P rows = None \<Longrightarrow> find P (rows @ ys) = find P ys"
  by (induction rows) (auto split: if_splits)

lemma find_sat: "find P xs = Some x \<Longrightarrow> P x"
  by (induction xs) (auto split: if_splits)

lemma find_replace:
  "find (\<lambda>r. ID r = gid) (map (\<lambda>r. if ID r = ID x then x else r) rows) =
     (if ID x = gid then (if find (\<lambda>r. ID r = ID x) rows = None then None else Some x)
      else find (\<lambda>r. ID r = gid) rows)"
  by (induction rows) auto

lemma find_snoc:
  "find P (rows @ [x]) =
     (case find P rows of None \<Rightarrow> (if P x then Some x else None) | Some y \<Rightarrow> Some y)"
  by (induction rows) auto

lemma find_save_row:
  "find (\<lambda>r. ID r = gid) (save_row x rows) =
     (if ID x = gid then Some x else find (\<lambda>r. ID r = gid) rows)"
  by (auto simp: save_row_def find_replace find_snoc split: option.splits)

lemma find_same:
  assumes "find (\<lambda>r. ID r = a) rows = Some x" and "find (\<lambda>r. ID r = b) rows = Some y"
    and "ID x = b"
  shows "x = y"
proof -
  have "ID x = a" using assms(1) by (rule find_sat)
  with assms show ?thesis by simp
qed

lemma find_save_row_other:
  assumes ne: "ID g' \<noteq> gid"
  shows "find (\<lambda>r. ID r = gid) (save_row g' rows) = find (\<lambda>r. ID r = gid) rows"
proof -
  have 1: "find (\<lambda>r. ID r = gid) (map (\<lambda>r. if ID r = ID g' then g' else r) rows)
        = find (\<lambda>r. ID r = gid) rows"
    using ne by (induction rows) auto
  have 2: "find (\<lambda>r. ID r = gid) (rows @ [g']) = find (\<lambda>r. ID r = gid) rows"
    using ne by (induction rows) auto
  show ?thesis
    using 1 2 by (simp add: save_row_def)
qed

lemma find_delete_member_other:
  "gid' \<noteq> gid \<Longrightarrow>
   find (\<lambda>r. ID r = gid) (delete_member gid' uid rows) = find (\<lambda>r. ID r = gid) rows"
  unfolding delete_member_def by (induction rows) auto

lemma other_group:
  assumes "find (\<lambda>r. ID r = gid) rows = Some g" and "find (\<lambda>r. ID r = gid') rows = Some g'"
    and "Status g \<noteq> 0" and "Status g' = 0"
  shows "ID g' \<noteq> gid"
proof
  assume "ID g' = gid"
  moreover have "ID g' = gid'"
    using assms(2) by (auto simp: find_Some_iff)
  ultimately have "g' = g" using assms(1,2) by simp
  with assms(3,4) show False by simp
qed

lemma save_row_keeps_closed:
  assumes "find (\<lambda>r. ID r = gid) rows = Some g" and "find (\<lambda>r. ID r = gid') rows = Some g'"
    and "Status g \<noteq> 0" and "Status g' = 0" and "ID x = ID g'"
  shows "find (\<lambda>r. ID r = gid) (save_row x rows) = Some g"
  using other_group [OF assms(1-4)] assms(1,5) by (simp add: find_save_row_other)

lemma delete_member_keeps_closed:
  assumes "find (\<lambda>r. ID r = gid) rows = Some g" and "find (\<lambda>r. ID r = gid') rows = Some g'"
    and "Status g \<noteq> 0" and "Status g' = 0"
  shows "find (\<lambda>r. ID r = gid) (delete_member (ID g') uid rows) = Some g"
  using other_group [OF assms(1-4)] assms(1) by (simp add: find_delete_member_other)

lemma map_User_ID_preloadUser: "map User_ID (map preloadUser ms) = map User_ID ms"
  by (induction ms) (simp_all add: preloadUser_def)

lemma list_all_no_password:
  "''password'' \<notin> set cols \<Longrightarrow> list_all (\<lambda>g. Password g = []) (map (SelectFields cols) rows)"
  by (induction rows) (simp_all add: SelectFields_def)

subsection \<open>Closed groups\<close>

lemma closed_group_untouched:
  "find_group (DB c) gid = Some g \<Longrightarrow> \<not> IsOpen g \<Longrightarrow>
   find_group (db_of (GetAPI r c)) gid = Some g"
  apply (cases r)
  apply (auto simp: GetAPI_def Recovery_def db_of_def mw_defs ep_defs gorm_defs logError_def
                    Keys_Group0_def Keys_Group_def IsOpen_def SelectFields_def
                    find_group_def find_append_Some Let_def
              split: all_splits
              intro: save_row_keeps_closed delete_member_keeps_closed)
  done


text \<open>
  C4. Closed is terminal. A stored group that is not open (status other than 0, the
  closed status -100 among them) is found unchanged, field by field and member by
  member, after any sequence of requests on any routes: close, update, update-password,
  join, leave and kick are all stopped by \<open>AllowIfGroupIsOpen\<close> before their endpoint,
  and the other routes write no existing group. So it never becomes open again.
\<close>

theorem closed_status_is_terminal:
  "find_group db gid = Some g \<Longrightarrow> \<not> IsOpen g \<Longrightarrow>
   find_group (serve_all db reqs) gid = Some g"
proof (induction reqs arbitrary: db)
  case Nil
  then show ?case by simp
next
  case (Cons x reqs)
  obtain e r rq where x: "x = (e, r, rq)" by (cases x)
  have "find_group (DB (NewContext e db rq)) gid = Some g"
    using Cons.prems(1) by (simp add: NewContext_def)
  then have "find_group (db_of (ServeHTTP e db r rq)) gid = Some g"
    unfolding ServeHTTP_def using Cons.prems(2) by (rule closed_group_untouched)
  then show ?case
    using Cons.IH Cons.prems(2) x by simp
qed

theorem closed_status_witness:
  "find_group closed_db 1 = Some closed_group \<and> \<not> IsOpen closed_group \<and>
   find_group
     (serve_all closed_db
        [(example_env, POST_groups_id_close, request ''Bearer 1'' ''1''),
         (example_env, PATCH_groups_id,
            group_request ''Bearer 1'' ''1'' (zero_Group\<lparr>Title := ''open again''\<rparr>)),
         (example_env, PATCH_groups_id_password,
            group_request ''Bearer 1'' ''1'' (zero_Group\<lparr>Password := ''pw''\<rparr>)),
         (example_env, POST_groups_id_join, request ''Bearer 3'' ''1''),
         (example_env, POST_groups_id_leave, request ''Bearer 2'' ''1''),
         (example_env, POST_groups_id_kick, user_request ''Bearer 1'' ''1'' (member 2))])
     1 = Some closed_group"
proof -
  let ?reqs =
    "[(example_env, POST_groups_id_close, request ''Bearer 1'' ''1''),
      (example_env, PATCH_groups_id,
         group_request ''Bearer 1'' ''1'' (zero_Group\<lparr>Title := ''open again''\<rparr>)),
      (example_env, PATCH_groups_id_password,
         group_request ''Bearer 1'' ''1'' (zero_Group\<lparr>Password := ''pw''\<rparr>)),
      (example_env, POST_groups_id_join, request ''Bearer 3'' ''1''),
      (example_env, POST_groups_id_leave, request ''Bearer 2'' ''1''),
      (example_env, POST_groups_id_kick, user_request ''Bearer 1'' ''1'' (member 2))]"
  have found: "find_group closed_db 1 = Some closed_group"
    by (simp add: find_group_def closed_db_def closed_group_def)
  have closed: "\<not> IsOpen closed_group"
    by (simp add: IsOpen_def closed_group_def)
  have "find_group (serve_all closed_db ?reqs) 1 = Some closed_group"
    using found closed by (rule closed_status_is_terminal)
  with found closed show ?thesis by blast
qed

subsection \<open>Password check\<close>

text \<open>The group that \<open>GroupObject\<close> reads carries the password of the stored row.\<close>

lemma RetrieveWithPassword_reads_stored_password:
  "RetrieveWithPassword c q = Return (err, g) \<Longrightarrow>
   \<exists>row. find_group (DB c) (ID q) = Some row \<and> Password g = Password row"
  by (auto simp: RetrieveWithPassword_def retrieveGroup_def gorm_First_Group_def
        SelectFields_def split: option.splits sum.splits)

text \<open>
  C7. A group is private exactly when its password is not empty. For the group \<open>g\<close>
  that \<open>GroupObject\<close> has put into the context (read with its stored password):
  if the password is empty the check hands the request on whatever its body; if it is
  not, a request whose body binds passes exactly when the password of the body equals
  the stored one and is answered 403 otherwise, and a request without a body is
  answered 400.
\<close>

theorem password_check:
  "Keys_Group c ''obj'' = Some g \<Longrightarrow>
     (IsPrivate g \<longleftrightarrow> Password g \<noteq> []) \<and>
     (Password g = [] \<longrightarrow> AllowIfCorrectGroupPassword nxt c = nxt c) \<and>
     (Password g \<noteq> [] \<longrightarrow>
        (\<forall>req. Bind_Group (Req c) = Inr req \<longrightarrow>
           AllowIfCorrectGroupPassword nxt c =
             (if Password req = Password g then nxt c
              else Done (AbortWithStatusJSON 403 (BodyMessage ''Incorrect password'') c))) \<and>
        (Bind_Group (Req c) = Inl ''EOF'' \<longrightarrow>
           AllowIfCorrectGroupPassword nxt c =
             Done (AbortWithStatusJSON 400 (BodyMessage ''Group password is required'') c)))"
  by (simp add: AllowIfCorrectGroupPassword_def IsPrivate_def ValidatePassword_def)

theorem password_check_witness:
  "Keys_Group
     (Set_key ''obj'' (GroupVal private_group)
        (NewContext example_env private_db
           (group_request ''Bearer 2'' ''1'' (zero_Group\<lparr>Password := ''secret''\<rparr>))))
     ''obj'' = Some private_group
   \<and> AllowIfCorrectGroupPassword Done
       (Set_key ''obj'' (GroupVal private_group)
          (NewContext example_env private_db
             (group_request ''Bearer 2'' ''1'' (zero_Group\<lparr>Password := ''secret''\<rparr>))))
     = Done (Set_key ''obj'' (GroupVal private_group)
          (NewContext example_env private_db
             (group_request ''Bearer 2'' ''1'' (zero_Group\<lparr>Password := ''secret''\<rparr>))))
   \<and> AllowIfCorrectGroupPassword Done
       (Set_key ''obj'' (GroupVal private_group)
          (NewContext example_env private_db
             (group_request ''Bearer 2'' ''1'' (zero_Group\<lparr>Password := ''guess''\<rparr>))))
     = Done (AbortWithStatusJSON 403 (BodyMessage ''Incorrect password'')
         (Set_key ''obj'' (GroupVal private_group)
            (NewContext example_env private_db
               (group_request ''Bearer 2'' ''1'' (zero_Group\<lparr>Password := ''guess''\<rparr>)))))"
proof -
  let ?good = "Set_key ''obj'' (GroupVal private_group)
        (NewContext example_env private_db
           (group_request ''Bearer 2'' ''1'' (zero_Group\<lparr>Password := ''secret''\<rparr>)))"
  let ?bad = "Set_key ''obj'' (GroupVal private_group)
        (NewContext example_env private_db
           (group_request ''Bearer 2'' ''1'' (zero_Group\<lparr>Password := ''guess''\<rparr>)))"
  have good: "Keys_Group ?good ''obj'' = Some private_group"
    by (simp add: Keys_Group_def Set_key_def)
  have bad: "Keys_Group ?bad ''obj'' = Some private_group"
    by (simp add: Keys_Group_def Set_key_def)
  from password_check [OF good, of Done] password_check [OF bad, of Done] good
  show ?thesis
    by (simp add: private_group_def Set_key_def NewContext_def group_request_def zero_Group_def)
qed

subsection \<open>Frame of an update\<close>

text \<open>
  C9. A request on \<open>PATCH groups/:id\<close>, however it ends, leaves every stored group in
  place with the id, status, owner, password and members it had; its title,
  description and \<open>max_size\<close> are either the stored ones or the non-zero ones of the
  request body. So a field whose value in the body is the zero value (an empty title
  or description, a \<open>max_size\<close> of 0) keeps its stored value, and no update writes an
  empty title or description or a \<open>max_size\<close> of 0.
\<close>

theorem UpdateGroup_frame:
  assumes "find_group db gid = Some row"
  shows "\<exists>row'. find_group (db_of (ServeHTTP e db PATCH_groups_id rq)) gid = Some row' \<and>
      ID row' = ID row \<and> Status row' = Status row \<and> OwnerID row' = OwnerID row \<and>
      Password row' = Password row \<and>
      map User_ID (Members row') = map User_ID (Members row) \<and>
      (Title row' = Title row \<or>
         (\<exists>b. Bind_Group rq = Inr b \<and> Title b \<noteq> [] \<and> Title row' = Title b)) \<and>
      (Description row' = Description row \<or>
         (\<exists>b. Bind_Group rq = Inr b \<and> Description b \<noteq> [] \<and> Description row' = Description b)) \<and>
      (MaxSize row' = MaxSize row \<or>
         (\<exists>b. Bind_Group rq = Inr b \<and> MaxSize b \<noteq> 0 \<and> MaxSize row' = MaxSize b))"
  using assms
  by (auto simp: ServeHTTP_def NewContext_def GetAPI_def Recovery_def db_of_def mw_defs ep_defs gorm_defs logError_def
                    Keys_Group0_def Keys_Group_def SelectFields_def preloadUser_def
                    find_group_def find_save_row Let_def
              split: all_splits dest: find_same)


theorem UpdateGroup_frame_witness:
  "find_group private_db 1 = Some private_group
   \<and> find_group
       (db_of (ServeHTTP example_env private_db PATCH_groups_id
          (group_request ''Bearer 1'' ''1''
             (zero_Group\<lparr>Title := ''dungeon'', MaxSize := 10, Status := 3, Password := ''x'',
                          OwnerID := 9\<rparr>)))) 1
     = Some (private_group\<lparr>Title := ''dungeon'', MaxSize := 10\<rparr>)"
proof -
  let ?rq = "group_request ''Bearer 1'' ''1''
             (zero_Group\<lparr>Title := ''dungeon'', MaxSize := 10, Status := 3, Password := ''x'',
                          OwnerID := 9\<rparr>)"
  have found: "find_group private_db 1 = Some private_group"
    by (simp add: find_group_def private_db_def private_group_def)
  have after: "find_group (db_of (ServeHTTP example_env private_db PATCH_groups_id ?rq)) 1
     = Some (private_group\<lparr>Title := ''dungeon'', MaxSize := 10\<rparr>)"
    by (simp add: eval_defs private_db_def private_group_def)
  from UpdateGroup_frame [OF found, of example_env ?rq] found after
  show ?thesis by simp
qed

subsection \<open>Passwords in responses\<close>

lemma no_password_route:
  "\<not> aborted c \<Longrightarrow> response_of (GetAPI r c) = Some (code, body) \<Longrightarrow> code < 400 \<Longrightarrow> password_free body"
  apply (cases r)
  apply (auto simp: GetAPI_def Recovery_def response_of_def password_free_def mw_defs ep_defs 
                    gorm_Find_Groups_def list_all_no_password Let_def split: all_splits)
  done


text \<open>
  C10. No successful response shows a password. Whatever the route and the request, a
  response with a 2xx status carries a group with an empty password, a list of
  groups all with empty passwords (\<open>List\<close> does not select the column), or a token
  with a user whose password is empty.
\<close>

theorem no_password_in_success_response:
  "response_of (ServeHTTP e db r rq) = Some (code, body) \<Longrightarrow> 200 \<le> code \<Longrightarrow> code < 300 \<Longrightarrow>
   password_free body"
  unfolding ServeHTTP_def
  by (erule no_password_route [rotated]) (simp_all add: NewContext_def)

theorem no_password_witness:
  "response_of (ServeHTTP example_env private_db GET_groups_id (request ''Bearer 2'' ''1''))
     = Some (200, GroupBody (private_group\<lparr>Password := []\<rparr>))
   \<and> password_free (GroupBody (private_group\<lparr>Password := []\<rparr>))"
proof -
  have resp: "response_of (ServeHTTP example_env private_db GET_groups_id (request ''Bearer 2'' ''1''))
     = Some (200, GroupBody (private_group\<lparr>Password := []\<rparr>))"
    by (simp add: eval_defs private_db_def private_group_def)
  from no_password_in_success_response [OF resp] resp
  show ?thesis by simp
qed


subsection \<open>Database errors\<close>

text \<open>
  C3, as the claim states it, fails: signing in with a username that is not in the
  table makes the lookup return \<open>record not found\<close>, and \<open>SignIn\<close> answers 401.
\<close>

theorem sign_in_unknown_user_is_unauthorized:
  "gorm_First_User_by_Username (NewContext example_env empty_db (user_request [] [] bob)) bob
     = Inl ''record not found''
   \<and> response_of (ServeHTTP example_env empty_db POST_sign_in (user_request [] [] bob))
     = Some (401, BodyMessage ''username or password is invalid.'')"
  by (simp add: eval_defs gorm_First_User_by_Username_def SignIn_def RetrieveByUsername_def bob_def)

lemmas on_defs = GroupObject_on_def CloseGroup_on_def CreateGroup_on_def JoinGroup_on_def
  KickFromGroup_on_def LeaveGroup_on_def ListGroups_on_def UpdateGroup_on_def
  UpdateGroupPassword_on_def SignUp_on_def SignIn_on_def

text \<open>With the methods of the repository, the handlers written against the data
  methods are the handlers of the routes.\<close>

lemma on_schemas_methods:
  "GroupObject_on schemas_methods = GroupObject"
  "CloseGroup_on schemas_methods = CloseGroup"
  "CreateGroup_on schemas_methods = CreateGroup"
  "JoinGroup_on schemas_methods = JoinGroup"
  "KickFromGroup_on schemas_methods = KickFromGroup"
  "LeaveGroup_on schemas_methods = LeaveGroup"
  "ListGroups_on schemas_methods = ListGroups"
  "UpdateGroup_on schemas_methods = UpdateGroup"
  "UpdateGroupPassword_on schemas_methods = UpdateGroupPassword"
  "SignUp_on schemas_methods = SignUp"
  "SignIn_on schemas_methods = SignIn"
  unfolding on_defs schemas_methods_def DataMethods.select_convs GroupObject_def
    CloseGroup_def CreateGroup_def JoinGroup_def KickFromGroup_def LeaveGroup_def
    ListGroups_def UpdateGroup_def UpdateGroupPassword_def SignUp_def SignIn_def
  by (rule refl)+

text \<open>
  The data methods of the repository give no such error back, \<open>RetrieveByUsername\<close>
  apart: they log it with \<open>log.Fatalf\<close>, which ends the process before the
  \<open>return\<close>. A request for a group that does not exist is not answered.
\<close>

lemma missing_group_ends_the_process:
  "ServeHTTP example_env empty_db GET_groups_id (request ''Bearer 1'' ''9'')
   = OsExit (logError ''record not found''
       (Set_key ''user_id'' (Int64Val 1)
          (NewContext example_env empty_db (request ''Bearer 1'' ''9''))))"
  by (simp add: eval_defs)

lemma client_error_400: "client_error (Done (AbortWithStatusJSON 400 (BodyMessage msg) c)) msg c"
  unfolding client_error_def by (rule exI [of _ 400]) simp

lemma client_error_401: "client_error (Done (AbortWithStatusJSON 401 (BodyMessage msg) c)) msg c"
  unfolding client_error_def by (rule exI [of _ 401]) simp

text \<open>
  C3, amended. Whenever a data method returns an error to the handler that called it,
  the handler aborts the request with 500 Internal Server Error, except for the errors
  a handler recognises: \<open>GroupObject\<close> and \<open>KickFromGroup\<close> answer an error that
  contains \<open>record not found\<close> from their lookup with 404 Not Found, \<open>SignIn\<close>
  answers such an error from its lookup with the invalid-credentials client error, and
  \<open>SignUp\<close> answers the username uniqueness error of \<open>Create\<close> with the
  user-already-exists client error. The theorem goes through the handlers call by
  call, for whatever data methods \<open>dm\<close>; \<open>err\<close> is the error that comes back.
\<close>

theorem database_error_answers:
  "(\<forall>gid. ParseInt (Param_id (Req c)) = Some gid \<longrightarrow>
      m_InitDB dm c = Return (Some err) \<longrightarrow>
      GroupObject_on dm nxt c = InternalServerError c)
   \<and> (\<forall>gid g. ParseInt (Param_id (Req c)) = Some gid \<longrightarrow>
      m_InitDB dm c = Return None \<longrightarrow>
      m_RetrieveWithPassword dm c (zero_Group\<lparr>ID := gid\<rparr>) = Return (Some err, g) \<longrightarrow>
      GroupObject_on dm nxt c =
        (if Contains err ''record not found'' then NotFound c else InternalServerError c))
   \<and> (\<forall>c'. m_Update dm c ((Keys_Group0 c ''obj'')\<lparr>Status := - 100\<rparr>) = Return (Some err, c') \<longrightarrow>
      CloseGroup_on dm nxt c = InternalServerError c')
   \<and> (ValidateForCreate (Keys_Group0 c ''req'') = None \<longrightarrow>
      m_InitDB dm c = Return (Some err) \<longrightarrow>
      CreateGroup_on dm nxt c = InternalServerError c)
   \<and> (\<forall>req2 c'. ValidateForCreate (Keys_Group0 c ''req'') = None \<longrightarrow>
      m_InitDB dm c = Return None \<longrightarrow>
      m_Group_Create dm c ((Keys_Group0 c ''req'')\<lparr>OwnerID := GetInt64 c ''user_id''\<rparr>)
        = Return (Some err, req2, c') \<longrightarrow>
      CreateGroup_on dm nxt c = InternalServerError c')
   \<and> (\<forall>c'. m_Update dm c
             ((Keys_Group0 c ''obj'')
                \<lparr>Members := Members (Keys_Group0 c ''obj'')
                              @ [zero_User\<lparr>User_ID := GetInt64 c ''user_id''\<rparr>]\<rparr>)
           = Return (Some err, c') \<longrightarrow>
      JoinGroup_on dm nxt c = InternalServerError c')
   \<and> (m_InitDB dm c = Return (Some err) \<longrightarrow>
      KickFromGroup_on dm nxt c = InternalServerError c)
   \<and> (\<forall>req1. m_InitDB dm c = Return None \<longrightarrow>
      m_User_Retrieve dm c (Keys_User0 c ''req'') = Return (Some err, req1) \<longrightarrow>
      KickFromGroup_on dm nxt c =
        (if Contains err ''record not found'' then NotFound c else InternalServerError c))
   \<and> (\<forall>req1 g1 c'. m_InitDB dm c = Return None \<longrightarrow>
      m_User_Retrieve dm c (Keys_User0 c ''req'') = Return (None, req1) \<longrightarrow>
      IsMember (Keys_Group0 c ''obj'') (User_ID req1) \<longrightarrow>
      m_RemoveMember dm c (Keys_Group0 c ''obj'') req1 = Return (Some err, g1, c') \<longrightarrow>
      KickFromGroup_on dm nxt c = InternalServerError c')
   \<and> (m_InitDB dm c = Return (Some err) \<longrightarrow>
      LeaveGroup_on dm nxt c = InternalServerError c)
   \<and> (\<forall>u1. m_InitDB dm c = Return None \<longrightarrow>
      m_User_Retrieve dm c (zero_User\<lparr>User_ID := GetInt64 c ''user_id''\<rparr>)
        = Return (Some err, u1) \<longrightarrow>
      LeaveGroup_on dm nxt c = InternalServerError c)
   \<and> (\<forall>u1 g1 c'. m_InitDB dm c = Return None \<longrightarrow>
      m_User_Retrieve dm c (zero_User\<lparr>User_ID := GetInt64 c ''user_id''\<rparr>)
        = Return (None, u1) \<longrightarrow>
      m_RemoveMember dm c (Keys_Group0 c ''obj'') u1 = Return (Some err, g1, c') \<longrightarrow>
      LeaveGroup_on dm nxt c = InternalServerError c')
   \<and> (m_InitDB dm c = Return (Some err) \<longrightarrow>
      ListGroups_on dm nxt c = InternalServerError c)
   \<and> (\<forall>gs. m_InitDB dm c = Return None \<longrightarrow>
      m_List dm c = Return (gs, Some err) \<longrightarrow>
      ListGroups_on dm nxt c = InternalServerError c)
   \<and> (\<forall>c'. m_Update dm c
             (let req = Keys_Group0 c ''req'';
                  g = Keys_Group0 c ''obj'';
                  g1 = (if Title req \<noteq> [] then g\<lparr>Title := Title req\<rparr> else g);
                  g2 = (if Description req \<noteq> [] then g1\<lparr>Description := Description req\<rparr>
                        else g1)
              in if MaxSize req \<noteq> 0 then g2\<lparr>MaxSize := MaxSize req\<rparr> else g2)
           = Return (Some err, c') \<longrightarrow>
      UpdateGroup_on dm nxt c = InternalServerError c')
   \<and> (\<forall>c'. m_Update dm c
             ((Keys_Group0 c ''obj'')\<lparr>Password := Password (Keys_Group0 c ''req'')\<rparr>)
           = Return (Some err, c') \<longrightarrow>
      UpdateGroupPassword_on dm nxt c = InternalServerError c')
   \<and> (ValidateForSignUp (Keys_User0 c ''req'') = None \<longrightarrow>
      m_InitDB dm c = Return (Some err) \<longrightarrow>
      SignUp_on dm nxt c = InternalServerError c)
   \<and> (\<forall>u1 c'. ValidateForSignUp (Keys_User0 c ''req'') = None \<longrightarrow>
      m_InitDB dm c = Return None \<longrightarrow>
      m_User_Create dm c (Keys_User0 c ''req'') = Return (Some err, u1, c') \<longrightarrow>
      (if err = ''UNIQUE constraint failed: users.username''
       then client_error (SignUp_on dm nxt c) ''User already exists.'' c'
       else SignUp_on dm nxt c = InternalServerError c'))
   \<and> (m_InitDB dm c = Return (Some err) \<longrightarrow>
      SignIn_on dm nxt c = InternalServerError c)
   \<and> (\<forall>u1 c'. m_InitDB dm c = Return None \<longrightarrow>
      m_RetrieveByUsername dm c (Keys_User0 c ''req'') = (Some err, u1, c') \<longrightarrow>
      (if Contains err ''record not found''
       then client_error (SignIn_on dm nxt c) ''username or password is invalid.'' c'
       else SignIn_on dm nxt c = InternalServerError c'))"
  by (intro conjI allI impI)
     (simp_all add: on_defs InternalServerError_def NotFound_def client_error_400
        client_error_401 Let_def)

theorem database_error_answers_witness:
  "m_RetrieveWithPassword returning_methods
      (NewContext example_env empty_db (request ''Bearer 1'' ''9'')) (zero_Group\<lparr>ID := 9\<rparr>)
     = Return (Some ''record not found'', zero_Group\<lparr>ID := 9\<rparr>)
   \<and> GroupObject_on returning_methods Done
       (NewContext example_env empty_db (request ''Bearer 1'' ''9''))
     = NotFound (NewContext example_env empty_db (request ''Bearer 1'' ''9''))
   \<and> client_error
       (SignUp_on returning_methods Done
          (Set_key ''req'' (UserVal bob)
             (NewContext example_env bob_db (user_request [] [] bob))))
       ''User already exists.''
       (logError ''UNIQUE constraint failed: users.username''
          (Set_key ''req'' (UserVal bob)
             (NewContext example_env bob_db (user_request [] [] bob))))
   \<and> client_error
       (SignIn_on schemas_methods Done
          (Set_key ''req'' (UserVal bob)
             (NewContext example_env empty_db (user_request [] [] bob))))
       ''username or password is invalid.''
       (logError ''record not found''
          (Set_key ''req'' (UserVal bob)
             (NewContext example_env empty_db (user_request [] [] bob))))
   \<and> SignIn_on schemas_methods Done
       (Set_key ''req'' (UserVal bob)
          (NewContext failing_lookup_env empty_db (user_request [] [] bob)))
     = InternalServerError
         (logError ''disk I/O error''
            (Set_key ''req'' (UserVal bob)
               (NewContext failing_lookup_env empty_db (user_request [] [] bob))))"
proof -
  let ?c2 = "NewContext example_env empty_db (request ''Bearer 1'' ''9'')"
  let ?c3 = "Set_key ''req'' (UserVal bob)
               (NewContext example_env bob_db (user_request [] [] bob))"
  let ?c1 = "Set_key ''req'' (UserVal bob)
               (NewContext example_env empty_db (user_request [] [] bob))"
  let ?c4 = "Set_key ''req'' (UserVal bob)
               (NewContext failing_lookup_env empty_db (user_request [] [] bob))"
  have id2: "ParseInt (Param_id (Req ?c2)) = Some 9"
    by (simp add: NewContext_def request_def ParseInt_def digit_val_def)
  have init2: "m_InitDB returning_methods ?c2 = Return None"
    by (simp add: returning_methods_def NewContext_def example_env_def)
  have get2: "m_RetrieveWithPassword returning_methods ?c2 (zero_Group\<lparr>ID := 9\<rparr>)
      = Return (Some ''record not found'', zero_Group\<lparr>ID := 9\<rparr>)"
    by (simp add: returning_methods_def gorm_First_Group_def find_group_def NewContext_def
          example_env_def empty_db_def zero_Group_def)
  from database_error_answers [where dm = returning_methods and c = ?c2
      and err = "''record not found''" and nxt = Done]
  have "\<forall>gid g. ParseInt (Param_id (Req ?c2)) = Some gid \<longrightarrow>
      m_InitDB returning_methods ?c2 = Return None \<longrightarrow>
      m_RetrieveWithPassword returning_methods ?c2 (zero_Group\<lparr>ID := gid\<rparr>)
        = Return (Some ''record not found'', g) \<longrightarrow>
      GroupObject_on returning_methods Done ?c2 =
        (if Contains ''record not found'' ''record not found'' then NotFound ?c2
         else InternalServerError ?c2)"
    by (elim conjE)
  from this [rule_format, OF id2 init2 get2]
  have a2: "GroupObject_on returning_methods Done ?c2 = NotFound ?c2"
    by simp

  have valid3: "ValidateForSignUp (Keys_User0 ?c3 ''req'') = None"
    by (simp add: ValidateForSignUp_def Keys_User0_def Keys_User_def Set_key_def bob_def)
  have init3: "m_InitDB returning_methods ?c3 = Return None"
    by (simp add: returning_methods_def NewContext_def example_env_def Set_key_def)
  have create3: "m_User_Create returning_methods ?c3 (Keys_User0 ?c3 ''req'')
      = Return (Some ''UNIQUE constraint failed: users.username'', bob,
          logError ''UNIQUE constraint failed: users.username'' ?c3)"
    by (simp add: returning_methods_def gorm_Create_User_def Keys_User0_def Keys_User_def
          Set_key_def NewContext_def example_env_def bob_db_def bob_def)
  from database_error_answers [where dm = returning_methods and c = ?c3
      and err = "''UNIQUE constraint failed: users.username''" and nxt = Done]
  have "\<forall>u1 c'. ValidateForSignUp (Keys_User0 ?c3 ''req'') = None \<longrightarrow>
      m_InitDB returning_methods ?c3 = Return None \<longrightarrow>
      m_User_Create returning_methods ?c3 (Keys_User0 ?c3 ''req'')
        = Return (Some ''UNIQUE constraint failed: users.username'', u1, c') \<longrightarrow>
      (if ''UNIQUE constraint failed: users.username''
            = ''UNIQUE constraint failed: users.username''
       then client_error (SignUp_on returning_methods Done ?c3) ''User already exists.'' c'
       else SignUp_on returning_methods Done ?c3 = InternalServerError c')"
    by (elim conjE)
  from this [rule_format, OF valid3 init3 create3]
  have a3: "client_error (SignUp_on returning_methods Done ?c3) ''User already exists.''
      (logError ''UNIQUE constraint failed: users.username'' ?c3)"
    by simp

  have init1: "m_InitDB schemas_methods ?c1 = Return None"
    by (simp add: schemas_methods_def InitDB_def CreateConnection_def Migrate_def
          NewContext_def example_env_def Set_key_def)
  have get1: "m_RetrieveByUsername schemas_methods ?c1 (Keys_User0 ?c1 ''req'')
      = (Some ''record not found'', bob, logError ''record not found'' ?c1)"
    by (simp add: schemas_methods_def RetrieveByUsername_def gorm_First_User_by_Username_def
          Keys_User0_def Keys_User_def Set_key_def NewContext_def example_env_def
          empty_db_def)
  from database_error_answers [where dm = schemas_methods and c = ?c1
      and err = "''record not found''" and nxt = Done]
  have "\<forall>u1 c'. m_InitDB schemas_methods ?c1 = Return None \<longrightarrow>
      m_RetrieveByUsername schemas_methods ?c1 (Keys_User0 ?c1 ''req'')
        = (Some ''record not found'', u1, c') \<longrightarrow>
      (if Contains ''record not found'' ''record not found''
       then client_error (SignIn_on schemas_methods Done ?c1)
              ''username or password is invalid.'' c'
       else SignIn_on schemas_methods Done ?c1 = InternalServerError c')"
    by (elim conjE)
  from this [rule_format, OF init1 get1]
  have a1: "client_error (SignIn_on schemas_methods Done ?c1)
      ''username or password is invalid.'' (logError ''record not found'' ?c1)"
    by simp

  have init4: "m_InitDB schemas_methods ?c4 = Return None"
    by (simp add: schemas_methods_def InitDB_def CreateConnection_def Migrate_def
          NewContext_def failing_lookup_env_def example_env_def Set_key_def)
  have get4: "m_RetrieveByUsername schemas_methods ?c4 (Keys_User0 ?c4 ''req'')
      = (Some ''disk I/O error'', bob, logError ''disk I/O error'' ?c4)"
    by (simp add: schemas_methods_def RetrieveByUsername_def gorm_First_User_by_Username_def
          Keys_User0_def Keys_User_def Set_key_def NewContext_def failing_lookup_env_def
          example_env_def)
  from database_error_answers [where dm = schemas_methods and c = ?c4
      and err = "''disk I/O error''" and nxt = Done]
  have "\<forall>u1 c'. m_InitDB schemas_methods ?c4 = Return None \<longrightarrow>
      m_RetrieveByUsername schemas_methods ?c4 (Keys_User0 ?c4 ''req'')
        = (Some ''disk I/O error'', u1, c') \<longrightarrow>
      (if Contains ''disk I/O error'' ''record not found''
       then client_error (SignIn_on schemas_methods Done ?c4)
              ''username or password is invalid.'' c'
       else SignIn_on schemas_methods Done ?c4 = InternalServerError c')"
    by (elim conjE)
  from this [rule_format, OF init4 get4]
  have a4: "SignIn_on schemas_methods Done ?c4
      = InternalServerError (logError ''disk I/O error'' ?c4)"
    by simp

  from get2 a2 a3 a1 a4 show ?thesis by (intro conjI)
qed



end
